theory Spec2Isabelle
  imports Main
begin

section \<open>Values of the runtime\<close>

text \<open>
  The repository holds three variants of one HTTPS server that asks its clients for a
  certificate: the plain Express server (source part 000), the Express server that
  generates its own certificate when it finds none (source part 001), and the older
  \<^verbatim>\<open>mtlsserver copy.js\<close>, a bare \<^verbatim>\<open>https\<close> server. Everything the three do
  is startup code and event handlers; the model gives each of them as a function on an
  explicit process state.
\<close>

datatype variant = Part_000 | Part_001 | Mtlsserver_copy

datatype tls_failure =
    ProtocolMismatch
  | CipherMismatch
  | MalformedCertificate
  | UntrustedChain

datatype js_error =
    CertificateFileNotFound string
      \<comment> \<open>\<^verbatim>\<open>new Error(`Certificate file not found: ${filename}`)\<close>\<close>
  | ReadFileError string
      \<comment> \<open>what \<^verbatim>\<open>fs.readFileSync\<close> throws, with the path\<close>
  | ExecError string
      \<comment> \<open>what \<^verbatim>\<open>execSync\<close> throws when the command fails, with the command\<close>
  | ListenError nat
      \<comment> \<open>the error event of a listener that cannot bind, with the port\<close>
  | TlsError tls_failure
      \<comment> \<open>the error of a failed handshake\<close>
  | OtherError string

datatype json = JString string | JObject "(string \<times> json) list"

text \<open>
  A template literal is the list of its parts; numbers, booleans and
  \<^verbatim>\<open>JSON.stringify\<close> arguments stay unformatted.
\<close>

datatype part = Lit string | Num nat | Bool bool | Stringify "json option"

datatype log_entry =
    console_log "part list"
  | console_error "part list" js_error

section \<open>The process state\<close>

datatype fentry = Readable string | Unreadable

datatype tls_version = TLSv1 | TLSv1_1 | TLSv1_2 | TLSv1_3

record tls_options =
  key :: string
  cert :: string
  ca :: string
  requestCert :: bool
  rejectUnauthorized :: bool
  minVersion :: "tls_version option"
  maxVersion :: "tls_version option"
  ciphers :: "string option"
  handshakeTimeout :: "nat option"
  debug :: "bool option"

text \<open>
  What the environment decides: the directory of the script, the working directory of the
  process, whether the \<^verbatim>\<open>openssl\<close> program can run and write there (\<open>None\<close>: it
  cannot; otherwise the key it generates and the certificate it makes when it accepts its
  arguments) and whether the port can be bound.
\<close>

record env =
  dirname :: string
  cwd :: string
  openssl :: "(string \<times> string) option"
  bind_ok :: bool

text \<open>
  \<open>exit_code\<close> is the argument of the \<^verbatim>\<open>process.exit\<close> call that ended the
  process, \<open>None\<close> as long as there was none. A process that never calls
  \<^verbatim>\<open>process.exit\<close> and has nothing left to wait for is ended by the runtime with
  status 0.
\<close>

text \<open>
  What a handler reads from the socket of a connection: the flag
  \<^verbatim>\<open>authorized\<close>, the object that \<^verbatim>\<open>getPeerCertificate()\<close> returns on a live
  socket (every field \<^verbatim>\<open>undefined\<close> when the peer sent no certificate),
  \<^verbatim>\<open>getProtocol()\<close> and the name in \<^verbatim>\<open>getCipher()\<close>.
\<close>

record PeerCertificate =
  subject :: "json option"
  issuer :: "json option"
  valid_from :: "string option"
  valid_to :: "string option"

record connection =
  authorized :: bool
  peerCertificate :: PeerCertificate
  protocol :: "string option"
  cipher :: "string option"

text \<open>The request as the handlers read it: \<^verbatim>\<open>req.method\<close> and the path name.\<close>

record request =
  req_method :: string
  path :: string

text \<open>
  A response: its status, the headers that the code of the repository sets itself, and
  its body. \<open>NotFoundPage\<close> is the page Express sends when no route matches.
\<close>

datatype body = NoBody | TextBody string | JsonBody json | NotFoundPage string string

record response =
  status :: nat
  headers :: "(string \<times> string) list"
  body :: body

datatype conn_state = Established connection | Terminated

record process =
  files :: "string \<rightharpoonup> fentry"
  out :: "log_entry list"
  commands :: "string list"
  listener :: "tls_options option"
  listening :: "nat option"
  exit_code :: "nat option"
  conns :: "nat \<rightharpoonup> conn_state"
  sent :: "(nat \<times> response) list"

definition path_resolve :: "string \<Rightarrow> string \<Rightarrow> string" where
  \<comment> \<open>\<^verbatim>\<open>path.resolve(dir, filename)\<close> for an absolute directory and a plain file name\<close>
  "path_resolve dir filename = dir @ ''/'' @ filename"

definition existsSync :: "process \<Rightarrow> string \<Rightarrow> bool" where
  "existsSync p file = (files p file \<noteq> None)"

definition debugLog :: "part list \<Rightarrow> process \<Rightarrow> process" where
  \<comment> \<open>the timestamp in front of the line is left out\<close>
  "debugLog message p = p\<lparr>out := out p @ [console_log (Lit ''[DEBUG] '' # message)]\<rparr>"

definition consoleError :: "part list \<Rightarrow> js_error \<Rightarrow> process \<Rightarrow> process" where
  "consoleError label e p = p\<lparr>out := out p @ [console_error label e]\<rparr>"

definition consoleLog :: "part list \<Rightarrow> process \<Rightarrow> process" where
  "consoleLog message p = p\<lparr>out := out p @ [console_log message]\<rparr>"

text \<open>A computation that may throw: the error or the value, and the state it leaves.\<close>

type_synonym 'a js = "process \<Rightarrow> (js_error + 'a) \<times> process"

definition bindE :: "'a js \<Rightarrow> ('a \<Rightarrow> 'b js) \<Rightarrow> 'b js" where
  "bindE m f p = (case m p of (Inl e, p') \<Rightarrow> (Inl e, p') | (Inr a, p') \<Rightarrow> f a p')"

section \<open>Certificate bootstrap\<close>

definition DOMAIN_NAME :: string where
  "DOMAIN_NAME = ''https://mtlsserver-52a108593257.herokuapp.com''"

definition openssl_command :: "string \<Rightarrow> string \<Rightarrow> string" where
  "openssl_command keyFile certFile =
     ''openssl req -new -newkey rsa:2048 -days 365 -nodes -x509 -keyout '' @ keyFile
     @ '' -out '' @ certFile
     @ '' -subj \"/C=US/ST=State/L=City/O=Organization/OU=OrgUnit/CN='' @ DOMAIN_NAME @ ''\"''"

text \<open>
  \<^verbatim>\<open>execSync\<close> hands the command line to the shell, which runs \<^verbatim>\<open>openssl req\<close>
  in the working directory of the process. The words of the command line: blanks
  separate them, double quotes group.
\<close>

fun shell_words :: "bool \<Rightarrow> string \<Rightarrow> string \<Rightarrow> string list" where
  "shell_words quoted w [] = (if w = [] then [] else [w])"
| "shell_words quoted w (c # cs) =
     (if c = CHR ''\"'' then shell_words (\<not> quoted) w cs
      else if c = CHR '' '' \<and> \<not> quoted
      then (if w = [] then shell_words quoted [] cs else w # shell_words quoted [] cs)
      else shell_words quoted (w @ [c]) cs)"

fun arg_after :: "string \<Rightarrow> string list \<Rightarrow> string option" where
  "arg_after flag (w # v # ws) = (if w = flag then Some v else arg_after flag (v # ws))"
| "arg_after flag ws = None"

text \<open>
  How \<^verbatim>\<open>openssl\<close> reads the \<^verbatim>\<open>-subj\<close> argument: a slash, then
  \<^verbatim>\<open>type=value\<close> parts with a slash after each value. The type runs up to the next
  \<^verbatim>\<open>=\<close>, whatever characters it meets, and the value up to the next slash that no
  backslash escapes. A type with no \<^verbatim>\<open>=\<close> after it, a backslash at the very end
  or a name that does not begin with a slash is an error.
\<close>

datatype name_state = AtType | InValue

fun parse_rdns :: "name_state \<Rightarrow> bool \<Rightarrow> string \<Rightarrow> bool" where
  "parse_rdns AtType started [] = (\<not> started)"
| "parse_rdns AtType started (c # cs) =
     (if c = CHR ''='' then parse_rdns InValue False cs else parse_rdns AtType True cs)"
| "parse_rdns InValue escaped [] = (\<not> escaped)"
| "parse_rdns InValue escaped (c # cs) =
     (if escaped then parse_rdns InValue False cs
      else if c = CHR 0x5C then parse_rdns InValue True cs
      else if c = CHR ''/'' then parse_rdns AtType False cs
      else parse_rdns InValue False cs)"

definition parse_name :: "string \<Rightarrow> bool" where
  "parse_name s =
     (case s of [] \<Rightarrow> False | c # cs \<Rightarrow> c = CHR ''/'' \<and> parse_rdns AtType False cs)"

text \<open>
  The run of \<^verbatim>\<open>openssl req -new -newkey ... -nodes -x509\<close>: it generates the key
  and writes it to the \<^verbatim>\<open>-keyout\<close> file, replacing what was there; then it reads
  the subject name, and only when it accepts the name does it make the certificate and
  write it to the \<^verbatim>\<open>-out\<close> file. Every failure is a nonzero exit status, which
  \<^verbatim>\<open>execSync\<close> throws.
\<close>

definition execSync_openssl :: "env \<Rightarrow> string \<Rightarrow> unit js" where
  "execSync_openssl E command p =
     (let p1 = p\<lparr>commands := commands p @ [command]\<rparr>;
          argv = shell_words False [] command
      in case (openssl E, arg_after ''-keyout'' argv, arg_after ''-out'' argv,
               arg_after ''-subj'' argv) of
           (Some (k, c), Some keyout, Some certout, Some subj) \<Rightarrow>
             (let p2 = p1\<lparr>files := (files p1)(path_resolve (cwd E) keyout \<mapsto> Readable k)\<rparr>
              in if parse_name subj
                 then (Inr (), p2\<lparr>files := (files p2)
                                   (path_resolve (cwd E) certout \<mapsto> Readable c)\<rparr>)
                 else (Inl (ExecError command), p2))
         | _ \<Rightarrow> (Inl (ExecError command), p1))"

definition generateCertificate :: "env \<Rightarrow> string \<Rightarrow> string \<Rightarrow> unit js" where
  "generateCertificate E keyFile certFile p =
     (case execSync_openssl E (openssl_command keyFile certFile)
             (debugLog [Lit ''Generating new certificate...''] p) of
        (Inr u, p') \<Rightarrow> (Inr u, debugLog [Lit ''New certificate generated successfully''] p')
      | (Inl e, p') \<Rightarrow> (Inl e, consoleError [Lit ''Error generating new certificate:''] e p'))"

definition loadCertificate :: "env \<Rightarrow> string \<Rightarrow> string js" where
  \<comment> \<open>the same function in parts 000 and 001\<close>
  "loadCertificate E filename p =
     (let certPath = path_resolve (dirname E) filename;
          p1 = debugLog [Lit ''Loading certificate from: '', Lit certPath] p;
          thrown = (\<lambda>e. (Inl e, consoleError [Lit ''Error loading '', Lit filename, Lit '':''] e p1))
      in if \<not> existsSync p1 certPath then thrown (CertificateFileNotFound filename)
         else case files p1 certPath of
           Some (Readable c) \<Rightarrow>
             (Inr c, debugLog [Lit ''Certificate length: '', Num (length c)]
                       (debugLog [Lit ''Loaded '', Lit filename, Lit '' successfully''] p1))
         | _ \<Rightarrow> thrown (ReadFileError certPath))"

definition loadCertificate_copy :: "env \<Rightarrow> string \<Rightarrow> string js" where
  \<comment> \<open>\<^verbatim>\<open>mtlsserver copy.js\<close>: no existence check, the read itself throws\<close>
  "loadCertificate_copy E filename p =
     (case files p (path_resolve (dirname E) filename) of
        Some (Readable c) \<Rightarrow>
          (Inr c, debugLog [Lit ''Certificate length: '', Num (length c)]
                    (debugLog [Lit ''Loaded '', Lit filename, Lit '' successfully''] p))
      | _ \<Rightarrow> (let e = ReadFileError (path_resolve (dirname E) filename)
              in (Inl e, consoleError [Lit ''Error loading '', Lit filename, Lit '':''] e p)))"

definition keyFile :: string where "keyFile = ''server_key.pem''"
definition certFile :: string where "certFile = ''server_cert.pem''"
definition caFile :: string where "caFile = ''ca_cert.pem''"

text \<open>The generation condition and the call it guards, lines 48 to 51 of part 001.\<close>

definition needs_generation :: "env \<Rightarrow> process \<Rightarrow> bool" where
  "needs_generation E p =
     (\<not> existsSync p (path_resolve (dirname E) keyFile)
      \<or> \<not> existsSync p (path_resolve (dirname E) certFile))"

definition bootstrap_generate :: "env \<Rightarrow> unit js" where
  "bootstrap_generate E p =
     (if needs_generation E p then generateCertificate E keyFile certFile p else (Inr (), p))"

section \<open>Transport options of the three variants\<close>

definition options :: "string \<Rightarrow> string \<Rightarrow> string \<Rightarrow> tls_options" where
  \<comment> \<open>the object literal of parts 000 and 001\<close>
  "options k c a =
     \<lparr>key = k, cert = c, ca = a, requestCert = True, rejectUnauthorized = True,
      minVersion = Some TLSv1_2, maxVersion = Some TLSv1_3,
      ciphers = Some ''ECDHE-ECDSA-AES128-GCM-SHA256:ECDHE-RSA-AES128-GCM-SHA256:ECDHE-ECDSA-AES256-GCM-SHA384:ECDHE-RSA-AES256-GCM-SHA384'',
      handshakeTimeout = None, debug = None\<rparr>"

definition options_copy :: "string \<Rightarrow> string \<Rightarrow> string \<Rightarrow> tls_options" where
  \<comment> \<open>the object literal of \<^verbatim>\<open>mtlsserver copy.js\<close>\<close>
  "options_copy k c a =
     \<lparr>key = k, cert = c, ca = a, requestCert = True, rejectUnauthorized = True,
      minVersion = None, maxVersion = None, ciphers = None,
      handshakeTimeout = Some 120000, debug = Some True\<rparr>"

fun split_on :: "char \<Rightarrow> string \<Rightarrow> string list" where
  "split_on d [] = [[]]"
| "split_on d (x # xs) =
     (if x = d then [] # split_on d xs
      else (case split_on d xs of [] \<Rightarrow> [[x]] | w # ws \<Rightarrow> (x # w) # ws))"

definition cipher_list :: "tls_options \<Rightarrow> string list option" where
  \<comment> \<open>the colon-separated allow-list, when the options give one\<close>
  "cipher_list opts = map_option (split_on CHR '':'') (ciphers opts)"

section \<open>Startup\<close>

definition on_error :: "js_error \<Rightarrow> process \<Rightarrow> process" where
  \<comment> \<open>\<^verbatim>\<open>server.on('error', ...)\<close>, the same in the three variants\<close>
  "on_error e p = consoleError [Lit ''Server error:''] e p"

definition createServer :: "tls_options \<Rightarrow> process \<Rightarrow> process" where
  "createServer opts p = p\<lparr>listener := Some opts\<rparr>"

text \<open>
  \<^verbatim>\<open>server.listen(port, callback)\<close>: a listener that binds runs the callback; one that
  cannot bind emits the \<^verbatim>\<open>error\<close> event, which the registered handler receives.
\<close>

definition listen :: "env \<Rightarrow> nat \<Rightarrow> process \<Rightarrow> process" where
  "listen E port p =
     (if bind_ok E
      then consoleLog [Lit ''mTLS server listening on port '', Num port] (p\<lparr>listening := Some port\<rparr>)
      else on_error (ListenError port) p)"

definition load_options :: "(string \<Rightarrow> string js) \<Rightarrow> (string \<Rightarrow> string \<Rightarrow> string \<Rightarrow> tls_options)
    \<Rightarrow> tls_options js" where
  \<comment> \<open>the three loads, in the order of the object literal\<close>
  "load_options load mk =
     bindE (load keyFile) (\<lambda>k.
     bindE (load certFile) (\<lambda>c.
     bindE (load caFile) (\<lambda>a p. (Inr (mk k c a), p))))"

definition catch_exit :: "(js_error + 'a) \<times> process \<Rightarrow> process" where
  \<comment> \<open>the \<^verbatim>\<open>catch\<close> around the startup code of parts 000 and 001\<close>
  "catch_exit r =
     (case r of
        (Inl e, p) \<Rightarrow> (consoleError [Lit ''Server initialization error:''] e p)\<lparr>exit_code := Some 1\<rparr>
      | (Inr _, p) \<Rightarrow> p)"

definition uncaught_exit :: "(js_error + 'a) \<times> process \<Rightarrow> process" where
  \<comment> \<open>an error thrown at top level with no handler: the runtime ends the process with status 1\<close>
  "uncaught_exit r =
     (case r of (Inl e, p) \<Rightarrow> p\<lparr>exit_code := Some 1\<rparr> | (Inr _, p) \<Rightarrow> p)"

definition main_000 :: "env \<Rightarrow> process \<Rightarrow> process" where
  "main_000 E p =
     catch_exit
       (bindE (load_options (loadCertificate E) options)
          (\<lambda>opts p. (Inr (), listen E 8446 (createServer opts p))) p)"

definition main_001 :: "env \<Rightarrow> process \<Rightarrow> process" where
  "main_001 E p =
     catch_exit
       (bindE (bootstrap_generate E) (\<lambda>_.
        bindE (load_options (loadCertificate E) options)
          (\<lambda>opts p. (Inr (), listen E 8446 (createServer opts p)))) p)"

definition main_copy :: "env \<Rightarrow> process \<Rightarrow> process" where
  "main_copy E p =
     uncaught_exit
       (bindE (load_options (loadCertificate_copy E) options_copy)
          (\<lambda>opts p. (Inr (), listen E 8443 (createServer opts p))) p)"

fun main :: "variant \<Rightarrow> env \<Rightarrow> process \<Rightarrow> process" where
  "main Part_000 = main_000"
| "main Part_001 = main_001"
| "main Mtlsserver_copy = main_copy"

definition fresh :: "(string \<rightharpoonup> fentry) \<Rightarrow> process" where
  \<comment> \<open>a process that has not run yet, on the given files\<close>
  "fresh fs = \<lparr>files = fs, out = [], commands = [], listener = None, listening = None,
               exit_code = None, conns = Map.empty, sent = []\<rparr>"

section \<open>Request handling\<close>

definition field :: "string \<Rightarrow> json option \<Rightarrow> (string \<times> json) list" where
  \<comment> \<open>a property of an object literal; \<^verbatim>\<open>res.json\<close> drops the undefined ones\<close>
  "field k v = (case v of None \<Rightarrow> [] | Some x \<Rightarrow> [(k, x)])"

definition success_payload :: "PeerCertificate \<Rightarrow> json" where
  "success_payload clientCert =
     JObject
       [(''status'', JString ''success''),
        (''message'', JString ''mTLS connection successful''),
        (''clientInfo'',
           JObject (field ''subject'' (subject clientCert)
                  @ field ''issuer'' (issuer clientCert)
                  @ field ''valid_from'' (map_option JString (valid_from clientCert))
                  @ field ''valid_to'' (map_option JString (valid_to clientCert))))]"

definition failure_payload :: json where
  "failure_payload =
     JObject
       [(''status'', JString ''error''),
        (''message'', JString ''Client certificate verification failed'')]"

definition cors_headers :: "(string \<times> string) list" where
  "cors_headers =
     [(''Access-Control-Allow-Origin'', ''*''),
      (''Access-Control-Allow-Methods'', ''GET, POST, OPTIONS''),
      (''Access-Control-Allow-Headers'', ''Content-Type, Authorization'')]"

definition sendStatus :: "nat \<Rightarrow> response \<Rightarrow> response" where
  \<comment> \<open>Express sends the reason phrase as the body; only 200 is ever sent this way\<close>
  "sendStatus code res = res\<lparr>status := code, body := TextBody ''OK''\<rparr>"

definition root_handler :: "variant \<Rightarrow> connection \<Rightarrow> response \<Rightarrow> process \<Rightarrow> response \<times> process" where
  \<comment> \<open>\<^verbatim>\<open>app.get('/', ...)\<close> of parts 000 and 001, which differ in the first log line;
      \<open>clientCert\<close> is an object, so the test \<^verbatim>\<open>if (clientCert)\<close> before the third
      log line holds\<close>
  "root_handler v conn res p =
     (let clientCert = peerCertificate conn;
          p1 = debugLog [Lit (if v = Part_000 then ''Received request''
                              else ''Processing GET request'')] p;
          p2 = debugLog [Lit ''Client authorized: '', Bool (authorized conn)] p1;
          p3 = debugLog [Lit ''Client certificate subject: '', Stringify (subject clientCert)] p2
      in if authorized conn
         then (res\<lparr>body := JsonBody (success_payload clientCert)\<rparr>,
               debugLog [Lit ''Client successfully authenticated''] p3)
         else (res\<lparr>status := 401, body := JsonBody failure_payload\<rparr>,
               debugLog [Lit ''Client authentication failed''] p3))"

text \<open>
  The Express application: the middleware registered with \<^verbatim>\<open>app.use\<close>, then the
  one route. Express runs a \<^verbatim>\<open>get\<close> route for HEAD requests too, whose responses
  go out without a body, and answers what no route matches with its 404 page.
  \<open>path\<close> is the path name of the request, without the query string.
\<close>

definition app :: "variant \<Rightarrow> connection \<Rightarrow> request \<Rightarrow> process \<Rightarrow> response \<times> process" where
  "app v conn req p =
     (let p1 = (if v = Part_001 then debugLog [Lit ''Received incoming request''] p else p);
          res = \<lparr>status = 200, headers = cors_headers, body = NoBody\<rparr>
      in if req_method req = ''OPTIONS'' then (sendStatus 200 res, p1)
         else if (req_method req = ''GET'' \<or> req_method req = ''HEAD'') \<and> path req = ''/''
         then (case root_handler v conn res p1 of
                 (res', p2) \<Rightarrow>
                   (if req_method req = ''HEAD'' then res'\<lparr>body := NoBody\<rparr> else res', p2))
         else (res\<lparr>status := 404, body := NotFoundPage (req_method req) (path req)\<rparr>, p1))"

definition app_copy :: "connection \<Rightarrow> request \<Rightarrow> process \<Rightarrow> response \<times> process" where
  \<comment> \<open>the request listener of \<^verbatim>\<open>mtlsserver copy.js\<close>, the same for every method and path\<close>
  "app_copy conn req p =
     (let p1 = debugLog [Lit ''Received request''] p;
          p2 = debugLog [Lit ''Client authorized: '', Bool (authorized conn)] p1;
          p3 = debugLog [Lit ''Client certificate: '', Lit ''[object Object]''] p2
      in if authorized conn
         then (\<lparr>status = 200, headers = [],
                body = TextBody ''Hello, secure world! mTLS connection successful.''\<rparr>,
               debugLog [Lit ''Client successfully authenticated''] p3)
         else (\<lparr>status = 401, headers = [],
                body = TextBody ''Client certificate verification failed.''\<rparr>,
               debugLog [Lit ''Client authentication failed''] p3))"

definition serve :: "variant \<Rightarrow> connection \<Rightarrow> request \<Rightarrow> process \<Rightarrow> response \<times> process" where
  "serve v = (if v = Mtlsserver_copy then app_copy else app v)"

fun authenticated_only :: "variant \<Rightarrow> response \<Rightarrow> bool" where
  \<comment> \<open>the success response of the variant: the one a client is to get only when authenticated\<close>
  "authenticated_only Mtlsserver_copy res =
     (body res = TextBody ''Hello, secure world! mTLS connection successful.'')"
| "authenticated_only v res =
     (case body res of
        JsonBody (JObject ((k, JString s) # _)) \<Rightarrow> k = ''status'' \<and> s = ''success''
      | _ \<Rightarrow> False)"

section \<open>The handshake, as the TLS layer of the runtime decides it\<close>

text \<open>
  The handshake is not code of this repository: the options steer the TLS layer of the
  runtime. What the layer finds out about a client is given: the protocol version the
  client negotiates, whether a cipher suite is shared, whether the certificate it presents
  is well formed, and whether its chain verifies against the \<open>ca\<close> of the options
  (false when it presents none). A bound the options leave out is the default of the
  runtime.
\<close>

record client_hello =
  negotiated :: tls_version
  cipher_shared :: bool
  certificate_wellformed :: bool
  chain_verified :: bool
  presented :: PeerCertificate
  socket_protocol :: "string option"
  socket_cipher :: "string option"

fun version_rank :: "tls_version \<Rightarrow> nat" where
  "version_rank TLSv1 = 0"
| "version_rank TLSv1_1 = 1"
| "version_rank TLSv1_2 = 2"
| "version_rank TLSv1_3 = 3"

definition DEFAULT_MIN_VERSION :: tls_version where
  "DEFAULT_MIN_VERSION = TLSv1_2"

definition DEFAULT_MAX_VERSION :: tls_version where
  "DEFAULT_MAX_VERSION = TLSv1_3"

definition version_allowed :: "tls_options \<Rightarrow> tls_version \<Rightarrow> bool" where
  "version_allowed opts v =
     (version_rank (case minVersion opts of Some m \<Rightarrow> m | None \<Rightarrow> DEFAULT_MIN_VERSION)
        \<le> version_rank v
      \<and> version_rank v
        \<le> version_rank (case maxVersion opts of Some m \<Rightarrow> m | None \<Rightarrow> DEFAULT_MAX_VERSION))"

definition socket_of :: "tls_options \<Rightarrow> client_hello \<Rightarrow> connection" where
  "socket_of opts h =
     \<lparr>authorized = (requestCert opts \<and> chain_verified h), peerCertificate = presented h,
      protocol = socket_protocol h, cipher = socket_cipher h\<rparr>"

definition handshake :: "tls_options \<Rightarrow> client_hello \<Rightarrow> tls_failure + connection" where
  "handshake opts h =
     (if \<not> version_allowed opts (negotiated h) then Inl ProtocolMismatch
      else if \<not> cipher_shared h then Inl CipherMismatch
      else if requestCert opts \<and> \<not> certificate_wellformed h then Inl MalformedCertificate
      else if requestCert opts \<and> rejectUnauthorized opts \<and> \<not> chain_verified h
      then Inl UntrustedChain
      else Inr (socket_of opts h))"

section \<open>Event handlers and the running server\<close>

definition on_tlsClientError :: "variant \<Rightarrow> js_error \<Rightarrow> connection option \<Rightarrow> process \<Rightarrow> process" where
  "on_tlsClientError v e tlsSocket p =
     (let p1 = consoleError [Lit ''TLS Client error:''] e p
      in if v = Mtlsserver_copy then p1
         else (case tlsSocket of
                 None \<Rightarrow> p1
               | Some s \<Rightarrow>
                   (case protocol s of
                      None \<Rightarrow> p1
                    | Some pr \<Rightarrow>
                        if pr = [] then p1
                        else debugLog [Lit ''TLS Socket Info - Protocol: '', Lit pr] p1)))"

definition on_secureConnection :: "variant \<Rightarrow> connection \<Rightarrow> process \<Rightarrow> process" where
  \<comment> \<open>parts 000 and 001; \<^verbatim>\<open>mtlsserver copy.js\<close> registers no such handler\<close>
  "on_secureConnection v s p =
     (if v = Mtlsserver_copy then p
      else
        (let p1 = debugLog [Lit ''Secure connection established''] p;
             p2 = (case protocol s of
                     None \<Rightarrow> p1
                   | Some pr \<Rightarrow> if pr = [] then p1 else debugLog [Lit ''Protocol: '', Lit pr] p1)
         in case cipher s of
              None \<Rightarrow> p2
            | Some name \<Rightarrow> debugLog [Lit ''Cipher: '', Lit name] p2))"

definition on_uncaughtException :: "variant \<Rightarrow> js_error \<Rightarrow> process \<Rightarrow> process" where
  \<comment> \<open>parts 000 and 001 log it; with no handler the runtime ends the process with status 1\<close>
  "on_uncaughtException v e p =
     (if v = Mtlsserver_copy then p\<lparr>exit_code := Some 1\<rparr>
      else consoleError [Lit ''Uncaught Exception:''] e p)"

text \<open>
  What reaches a listening server: a client that connects (under a number no other
  connection has), a request on a connection, an error of the listener, an exception
  nobody caught. A failed handshake ends the connection and is reported to the
  \<^verbatim>\<open>tlsClientError\<close> handler; a connection that stands is reported to the
  \<^verbatim>\<open>secureConnection\<close> handler and may carry requests.
\<close>

datatype event =
    Connect nat client_hello
  | Request nat request
  | ServerError js_error
  | UncaughtException js_error

fun step :: "variant \<Rightarrow> event \<Rightarrow> process \<Rightarrow> process" where
  "step v (Connect c h) p =
     (case listener p of
        None \<Rightarrow> p
      | Some opts \<Rightarrow>
          if conns p c \<noteq> None then p
          else (case handshake opts h of
                  Inl f \<Rightarrow>
                    on_tlsClientError v (TlsError f) (Some (socket_of opts h))
                      (p\<lparr>conns := (conns p)(c \<mapsto> Terminated)\<rparr>)
                | Inr s \<Rightarrow>
                    on_secureConnection v s (p\<lparr>conns := (conns p)(c \<mapsto> Established s)\<rparr>)))"
| "step v (Request c r) p =
     (case conns p c of
        Some (Established s) \<Rightarrow>
          (case serve v s r p of (res, p') \<Rightarrow> p'\<lparr>sent := sent p' @ [(c, res)]\<rparr>)
      | _ \<Rightarrow> p)"
| "step v (ServerError e) p = on_error e p"
| "step v (UncaughtException e) p = on_uncaughtException v e p"

definition deliver :: "variant \<Rightarrow> event \<Rightarrow> process \<Rightarrow> process" where
  \<comment> \<open>only a process that listens and has not exited receives events\<close>
  "deliver v ev p = (if exit_code p = None \<and> listening p \<noteq> None then step v ev p else p)"

fun run :: "variant \<Rightarrow> event list \<Rightarrow> process \<Rightarrow> process" where
  "run v [] p = p"
| "run v (ev # evs) p = run v evs (deliver v ev p)"

section \<open>Reading the startup\<close>

text \<open>The content of a file of the script directory that can be read.\<close>

definition readable :: "env \<Rightarrow> (string \<rightharpoonup> fentry) \<Rightarrow> string \<Rightarrow> string option" where
  "readable E fs f = (case fs (path_resolve (dirname E) f) of Some (Readable c) \<Rightarrow> Some c | _ \<Rightarrow> None)"

definition loaded :: "env \<Rightarrow> (string \<rightharpoonup> fentry) \<Rightarrow> (string \<times> string \<times> string) option" where
  "loaded E fs =
     (case (readable E fs keyFile, readable E fs certFile, readable E fs caFile) of
        (Some k, Some c, Some a) \<Rightarrow> Some (k, c, a)
      | _ \<Rightarrow> None)"

text \<open>The port each variant listens on.\<close>

fun port :: "variant \<Rightarrow> nat" where
  "port Mtlsserver_copy = 8443"
| "port v = 8446"

text \<open>The connection an event is about.\<close>

fun event_conn :: "event \<Rightarrow> nat option" where
  "event_conn (Connect c h) = Some c"
| "event_conn (Request c r) = Some c"
| "event_conn (ServerError e) = None"
| "event_conn (UncaughtException e) = None"

text \<open>Two states that differ at most in the log and in what they hold on connection \<open>c\<close>.\<close>

definition agree :: "nat \<Rightarrow> process \<Rightarrow> process \<Rightarrow> bool" where
  "agree c p q =
     (files p = files q \<and> commands p = commands q \<and> listener p = listener q
      \<and> listening p = listening q \<and> exit_code p = exit_code q \<and> sent p = sent q
      \<and> (conns p)(c := None) = (conns q)(c := None))"

text \<open>
  The invariant of the running server: a success response went out only on a connection
  that stands and is authorized, and an authorized connection goes back to a client whose
  chain verified, among the events \<open>H\<close> seen so far.
\<close>

definition trusted_state :: "variant \<Rightarrow> event set \<Rightarrow> process \<Rightarrow> bool" where
  "trusted_state v H p =
     ((\<forall>c res. (c, res) \<in> set (sent p) \<and> authenticated_only v res \<longrightarrow>
         (\<exists>s. conns p c = Some (Established s) \<and> authorized s))
      \<and> (\<forall>c s. conns p c = Some (Established s) \<and> authorized s \<longrightarrow>
           (\<exists>h. Connect c h \<in> H \<and> chain_verified h)))"

section \<open>Example inputs\<close>

definition app_env :: env where
  "app_env = \<lparr>dirname = ''/app'', cwd = ''/app'', openssl = Some (''NEW KEY'', ''NEW CERT''),
              bind_ok = True\<rparr>"

definition key_only :: "string \<rightharpoonup> fentry" where
  "key_only = [''/app/server_key.pem'' \<mapsto> Readable ''OLD KEY'',
               ''/app/ca_cert.pem'' \<mapsto> Readable ''CA'']"

definition all_files :: "string \<rightharpoonup> fentry" where
  "all_files = [''/app/server_key.pem'' \<mapsto> Readable ''KEY'',
                ''/app/server_cert.pem'' \<mapsto> Readable ''CERT'',
                ''/app/ca_cert.pem'' \<mapsto> Readable ''CA'']"

definition no_files :: "string \<rightharpoonup> fentry" where
  "no_files = Map.empty"

definition nobind_env :: env where
  "nobind_env = \<lparr>dirname = ''/app'', cwd = ''/app'', openssl = None, bind_ok = False\<rparr>"

definition no_ca :: "string \<rightharpoonup> fentry" where
  "no_ca = [''/app/server_key.pem'' \<mapsto> Readable ''KEY'',
            ''/app/server_cert.pem'' \<mapsto> Readable ''CERT'']"

definition trusted_client :: connection where
  "trusted_client =
     \<lparr>authorized = True,
      peerCertificate =
        \<lparr>subject = Some (JObject [(''CN'', JString ''TestClient'')]),
         issuer = Some (JObject [(''CN'', JString ''Test CA'')]),
         valid_from = Some ''Jan  1 00:00:00 2025 GMT'',
         valid_to = Some ''Jan  1 00:00:00 2026 GMT''\<rparr>,
      protocol = Some ''TLSv1.3'', cipher = Some ''TLS_AES_256_GCM_SHA384''\<rparr>"

definition untrusted_client :: connection where
  "untrusted_client =
     \<lparr>authorized = False,
      peerCertificate = \<lparr>subject = None, issuer = None, valid_from = None, valid_to = None\<rparr>,
      protocol = Some ''TLSv1.3'', cipher = Some ''TLS_AES_256_GCM_SHA384''\<rparr>"

definition get_root :: request where
  "get_root = \<lparr>req_method = ''GET'', path = ''/''\<rparr>"

definition options_root :: request where
  "options_root = \<lparr>req_method = ''OPTIONS'', path = ''/''\<rparr>"

definition old_client :: client_hello where
  "old_client =
     \<lparr>negotiated = TLSv1_1, cipher_shared = True, certificate_wellformed = True,
      chain_verified = True,
      presented = \<lparr>subject = Some (JObject [(''CN'', JString ''TestClient'')]),
                   issuer = Some (JObject [(''CN'', JString ''Test CA'')]),
                   valid_from = Some ''Jan  1 00:00:00 2025 GMT'',
                   valid_to = Some ''Jan  1 00:00:00 2026 GMT''\<rparr>,
      socket_protocol = None, socket_cipher = None\<rparr>"

definition good_client :: client_hello where
  "good_client =
     \<lparr>negotiated = TLSv1_3, cipher_shared = True, certificate_wellformed = True,
      chain_verified = True,
      presented = \<lparr>subject = Some (JObject [(''CN'', JString ''TestClient'')]),
                   issuer = Some (JObject [(''CN'', JString ''Test CA'')]),
                   valid_from = Some ''Jan  1 00:00:00 2025 GMT'',
                   valid_to = Some ''Jan  1 00:00:00 2026 GMT''\<rparr>,
      socket_protocol = Some ''TLSv1.3'', socket_cipher = Some ''TLS_AES_256_GCM_SHA384''\<rparr>"

section \<open>What each step leaves unchanged\<close>

lemma debugLog_frame [simp]:
  "files (debugLog m p) = files p"
  "commands (debugLog m p) = commands p"
  "listener (debugLog m p) = listener p"
  "listening (debugLog m p) = listening p"
  "exit_code (debugLog m p) = exit_code p"
  "conns (debugLog m p) = conns p"
  "sent (debugLog m p) = sent p"
  by (simp_all add: debugLog_def)

lemma consoleError_frame [simp]:
  "files (consoleError m e p) = files p"
  "commands (consoleError m e p) = commands p"
  "listener (consoleError m e p) = listener p"
  "listening (consoleError m e p) = listening p"
  "exit_code (consoleError m e p) = exit_code p"
  "conns (consoleError m e p) = conns p"
  "sent (consoleError m e p) = sent p"
  by (simp_all add: consoleError_def)

lemma consoleLog_frame [simp]:
  "files (consoleLog m p) = files p"
  "commands (consoleLog m p) = commands p"
  "listener (consoleLog m p) = listener p"
  "listening (consoleLog m p) = listening p"
  "exit_code (consoleLog m p) = exit_code p"
  "conns (consoleLog m p) = conns p"
  "sent (consoleLog m p) = sent p"
  by (simp_all add: consoleLog_def)

lemma existsSync_log [simp]:
  "existsSync (debugLog m p) f = existsSync p f"
  "existsSync (consoleError m' e p) f = existsSync p f"
  by (simp_all add: existsSync_def)

lemma loadCertificate_frame:
  "files (snd (loadCertificate E f p)) = files p"
  "commands (snd (loadCertificate E f p)) = commands p"
  "listener (snd (loadCertificate E f p)) = listener p"
  "listening (snd (loadCertificate E f p)) = listening p"
  "exit_code (snd (loadCertificate E f p)) = exit_code p"
  "conns (snd (loadCertificate E f p)) = conns p"
  "sent (snd (loadCertificate E f p)) = sent p"
  by (simp_all add: loadCertificate_def Let_def split: option.splits fentry.splits)

lemma loadCertificate_copy_frame:
  "files (snd (loadCertificate_copy E f p)) = files p"
  "commands (snd (loadCertificate_copy E f p)) = commands p"
  "listener (snd (loadCertificate_copy E f p)) = listener p"
  "listening (snd (loadCertificate_copy E f p)) = listening p"
  "exit_code (snd (loadCertificate_copy E f p)) = exit_code p"
  "conns (snd (loadCertificate_copy E f p)) = conns p"
  "sent (snd (loadCertificate_copy E f p)) = sent p"
  by (simp_all add: loadCertificate_copy_def Let_def split: option.splits fentry.splits)

lemma loadCertificate_result:
  "fst (loadCertificate E f p) =
     (case files p (path_resolve (dirname E) f) of
        None \<Rightarrow> Inl (CertificateFileNotFound f)
      | Some Unreadable \<Rightarrow> Inl (ReadFileError (path_resolve (dirname E) f))
      | Some (Readable c) \<Rightarrow> Inr c)"
  by (simp add: loadCertificate_def Let_def existsSync_def split: option.splits fentry.splits)

lemma loadCertificate_copy_result:
  "fst (loadCertificate_copy E f p) =
     (case files p (path_resolve (dirname E) f) of
        Some (Readable c) \<Rightarrow> Inr c
      | _ \<Rightarrow> Inl (ReadFileError (path_resolve (dirname E) f)))"
  by (simp add: loadCertificate_copy_def Let_def split: option.splits fentry.splits)

lemma ca_not_key: "path_resolve d caFile \<noteq> path_resolve c keyFile"
proof
  assume "path_resolve d caFile = path_resolve c keyFile"
  then have "rev (path_resolve d caFile) = rev (path_resolve c keyFile)" by simp
  then show False by (simp add: path_resolve_def caFile_def keyFile_def)
qed

lemma cert_not_key: "path_resolve d certFile \<noteq> path_resolve c keyFile"
proof
  assume "path_resolve d certFile = path_resolve c keyFile"
  then have "rev (path_resolve d certFile) = rev (path_resolve c keyFile)" by simp
  then show False by (simp add: path_resolve_def certFile_def keyFile_def)
qed

lemma loadCertificate_cases:
  assumes "loadCertificate E f p = (r, p')"
  shows "files p' = files p \<and> commands p' = commands p \<and> listener p' = listener p
       \<and> listening p' = listening p \<and> exit_code p' = exit_code p
       \<and> conns p' = conns p \<and> sent p' = sent p
       \<and> (case readable E (files p) f of Some c \<Rightarrow> r = Inr c | None \<Rightarrow> isl r)"
proof -
  have "p' = snd (loadCertificate E f p)" and "r = fst (loadCertificate E f p)"
    using assms by simp_all
  then show ?thesis
    by (simp add: loadCertificate_frame loadCertificate_result readable_def
        split: option.splits fentry.splits)
qed

lemma loadCertificate_copy_cases:
  assumes "loadCertificate_copy E f p = (r, p')"
  shows "files p' = files p \<and> commands p' = commands p \<and> listener p' = listener p
       \<and> listening p' = listening p \<and> exit_code p' = exit_code p
       \<and> conns p' = conns p \<and> sent p' = sent p
       \<and> (case readable E (files p) f of Some c \<Rightarrow> r = Inr c | None \<Rightarrow> isl r)"
proof -
  have "p' = snd (loadCertificate_copy E f p)" and "r = fst (loadCertificate_copy E f p)"
    using assms by simp_all
  then show ?thesis
    by (simp add: loadCertificate_copy_frame loadCertificate_copy_result readable_def
        split: option.splits fentry.splits)
qed

lemma load_options_cases:
  assumes "load_options (loadCertificate E) mk p = (r, p')"
  shows "files p' = files p \<and> commands p' = commands p \<and> listener p' = listener p
       \<and> listening p' = listening p \<and> exit_code p' = exit_code p
       \<and> conns p' = conns p \<and> sent p' = sent p
       \<and> (case (readable E (files p) keyFile, readable E (files p) certFile,
                 readable E (files p) caFile) of
            (Some k, Some c, Some a) \<Rightarrow> r = Inr (mk k c a)
          | _ \<Rightarrow> isl r)"
  using assms
  by (auto simp: load_options_def bindE_def
      split: prod.splits sum.splits option.splits
      dest!: loadCertificate_cases)

lemma load_options_copy_cases:
  assumes "load_options (loadCertificate_copy E) mk p = (r, p')"
  shows "files p' = files p \<and> commands p' = commands p \<and> listener p' = listener p
       \<and> listening p' = listening p \<and> exit_code p' = exit_code p
       \<and> conns p' = conns p \<and> sent p' = sent p
       \<and> (case (readable E (files p) keyFile, readable E (files p) certFile,
                 readable E (files p) caFile) of
            (Some k, Some c, Some a) \<Rightarrow> r = Inr (mk k c a)
          | _ \<Rightarrow> isl r)"
  using assms
  by (auto simp: load_options_def bindE_def
      split: prod.splits sum.splits option.splits
      dest!: loadCertificate_copy_cases)

lemma bootstrap_generate_skip:
  "\<not> needs_generation E p \<Longrightarrow> bootstrap_generate E p = (Inr (), p)"
  by (simp add: bootstrap_generate_def)

lemma openssl_command_server:
  "openssl_command keyFile certFile =
     ''openssl req -new -newkey rsa:2048 -days 365 -nodes -x509 -keyout server_key.pem -out server_cert.pem -subj \"/C=US/ST=State/L=City/O=Organization/OU=OrgUnit/CN=https://mtlsserver-52a108593257.herokuapp.com\"''"
  by (simp add: openssl_command_def keyFile_def certFile_def DOMAIN_NAME_def)

lemma openssl_argv:
  "shell_words False [] (openssl_command keyFile certFile) =
     [''openssl'', ''req'', ''-new'', ''-newkey'', ''rsa:2048'', ''-days'', ''365'', ''-nodes'',
      ''-x509'', ''-keyout'', ''server_key.pem'', ''-out'', ''server_cert.pem'', ''-subj'',
      ''/C=US/ST=State/L=City/O=Organization/OU=OrgUnit/CN=https://mtlsserver-52a108593257.herokuapp.com'']"
  by (simp add: openssl_command_server)

lemma openssl_args:
  "arg_after ''-keyout'' (shell_words False [] (openssl_command keyFile certFile)) = Some keyFile"
  "arg_after ''-out'' (shell_words False [] (openssl_command keyFile certFile)) = Some certFile"
  "arg_after ''-subj'' (shell_words False [] (openssl_command keyFile certFile)) =
     Some ''/C=US/ST=State/L=City/O=Organization/OU=OrgUnit/CN=https://mtlsserver-52a108593257.herokuapp.com''"
  unfolding openssl_argv by (simp_all add: keyFile_def certFile_def)

lemma subject_rejected:
  "\<not> parse_name ''/C=US/ST=State/L=City/O=Organization/OU=OrgUnit/CN=https://mtlsserver-52a108593257.herokuapp.com''"
  by (simp add: parse_name_def)

lemma execSync_openssl_server:
  "execSync_openssl E (openssl_command keyFile certFile) p =
     (Inl (ExecError (openssl_command keyFile certFile)),
      (case openssl E of
         None \<Rightarrow> p\<lparr>commands := commands p @ [openssl_command keyFile certFile]\<rparr>
       | Some (k, c) \<Rightarrow>
           p\<lparr>commands := commands p @ [openssl_command keyFile certFile],
             files := (files p)(path_resolve (cwd E) keyFile \<mapsto> Readable k)\<rparr>))"
  by (simp add: execSync_openssl_def Let_def openssl_args subject_rejected
      split: option.splits prod.splits)

lemma bootstrap_generate_fail:
  assumes "needs_generation E p"
  shows "\<exists>p'. bootstrap_generate E p = (Inl (ExecError (openssl_command keyFile certFile)), p')
       \<and> files p' =
           (case openssl E of
              None \<Rightarrow> files p
            | Some (k, c) \<Rightarrow> (files p)(path_resolve (cwd E) keyFile \<mapsto> Readable k))
       \<and> commands p' = commands p @ [openssl_command keyFile certFile]
       \<and> listener p' = listener p \<and> listening p' = listening p
       \<and> exit_code p' = exit_code p \<and> conns p' = conns p \<and> sent p' = sent p"
  using assms
  by (simp add: bootstrap_generate_def generateCertificate_def execSync_openssl_server
      split: option.splits prod.splits)

lemma listen_frame [simp]:
  "files (listen E n p) = files p"
  "commands (listen E n p) = commands p"
  "listener (listen E n p) = listener p"
  "exit_code (listen E n p) = exit_code p"
  "conns (listen E n p) = conns p"
  "sent (listen E n p) = sent p"
  "listening (listen E n p) = (if bind_ok E then Some n else listening p)"
  by (simp_all add: listen_def on_error_def)

lemma listen_out [simp]:
  "last (out (listen E n p)) =
     (if bind_ok E then console_log [Lit ''mTLS server listening on port '', Num n]
      else console_error [Lit ''Server error:''] (ListenError n))"
  by (simp add: listen_def on_error_def consoleLog_def consoleError_def)

lemma createServer_frame [simp]:
  "files (createServer opts p) = files p"
  "commands (createServer opts p) = commands p"
  "listener (createServer opts p) = Some opts"
  "exit_code (createServer opts p) = exit_code p"
  "conns (createServer opts p) = conns p"
  "sent (createServer opts p) = sent p"
  "listening (createServer opts p) = listening p"
  by (simp_all add: createServer_def)

lemma main_000_unfold:
  "main_000 E p =
     (case load_options (loadCertificate E) options p of
        (Inl e, p1) \<Rightarrow> (consoleError [Lit ''Server initialization error:''] e p1)\<lparr>exit_code := Some 1\<rparr>
      | (Inr opts, p1) \<Rightarrow> listen E 8446 (createServer opts p1))"
  by (simp add: main_000_def bindE_def catch_exit_def split: prod.splits sum.splits)

lemma main_copy_unfold:
  "main_copy E p =
     (case load_options (loadCertificate_copy E) options_copy p of
        (Inl e, p1) \<Rightarrow> p1\<lparr>exit_code := Some 1\<rparr>
      | (Inr opts, p1) \<Rightarrow> listen E 8443 (createServer opts p1))"
  by (simp add: main_copy_def bindE_def uncaught_exit_def split: prod.splits sum.splits)

lemma main_001_unfold:
  "main_001 E p =
     (case bootstrap_generate E p of
        (Inl e, p1) \<Rightarrow> (consoleError [Lit ''Server initialization error:''] e p1)\<lparr>exit_code := Some 1\<rparr>
      | (Inr u, p1) \<Rightarrow> main_000 E p1)"
  by (simp add: main_001_def main_000_def bindE_def catch_exit_def split: prod.splits sum.splits)

lemma main_000_state:
  "files (main_000 E p) = files p \<and> commands (main_000 E p) = commands p
   \<and> conns (main_000 E p) = conns p \<and> sent (main_000 E p) = sent p
   \<and> (case loaded E (files p) of
        None \<Rightarrow> exit_code (main_000 E p) = Some 1 \<and> listener (main_000 E p) = listener p
                \<and> listening (main_000 E p) = listening p
      | Some (k, c, a) \<Rightarrow>
          exit_code (main_000 E p) = exit_code p
          \<and> listener (main_000 E p) = Some (options k c a)
          \<and> listening (main_000 E p) = (if bind_ok E then Some 8446 else listening p)
          \<and> last (out (main_000 E p)) =
              (if bind_ok E then console_log [Lit ''mTLS server listening on port '', Num 8446]
               else console_error [Lit ''Server error:''] (ListenError 8446)))"
proof -
  obtain r p1 where L: "load_options (loadCertificate E) options p = (r, p1)"
    by (cases "load_options (loadCertificate E) options p")
  note F = load_options_cases [OF L]
  show ?thesis
  proof (cases "loaded E (files p)")
    case None
    then have "isl r" using F by (auto simp: loaded_def split: option.splits)
    then obtain e where "r = Inl e" by (cases r) auto
    then show ?thesis using None F L by (simp add: main_000_unfold)
  next
    case (Some kca)
    obtain k c a where kca: "kca = (k, c, a)" by (cases kca) auto
    have "r = Inr (options k c a)"
      using F Some kca by (auto simp: loaded_def split: option.splits)
    then show ?thesis using Some kca F L by (simp add: main_000_unfold)
  qed
qed

lemma main_copy_state:
  "files (main_copy E p) = files p \<and> commands (main_copy E p) = commands p
   \<and> conns (main_copy E p) = conns p \<and> sent (main_copy E p) = sent p
   \<and> (case loaded E (files p) of
        None \<Rightarrow> exit_code (main_copy E p) = Some 1 \<and> listener (main_copy E p) = listener p
                \<and> listening (main_copy E p) = listening p
      | Some (k, c, a) \<Rightarrow>
          exit_code (main_copy E p) = exit_code p
          \<and> listener (main_copy E p) = Some (options_copy k c a)
          \<and> listening (main_copy E p) = (if bind_ok E then Some 8443 else listening p)
          \<and> last (out (main_copy E p)) =
              (if bind_ok E then console_log [Lit ''mTLS server listening on port '', Num 8443]
               else console_error [Lit ''Server error:''] (ListenError 8443)))"
proof -
  obtain r p1 where L: "load_options (loadCertificate_copy E) options_copy p = (r, p1)"
    by (cases "load_options (loadCertificate_copy E) options_copy p")
  note F = load_options_copy_cases [OF L]
  show ?thesis
  proof (cases "loaded E (files p)")
    case None
    then have "isl r" using F by (auto simp: loaded_def split: option.splits)
    then obtain e where "r = Inl e" by (cases r) auto
    then show ?thesis using None F L by (simp add: main_copy_unfold)
  next
    case (Some kca)
    obtain k c a where kca: "kca = (k, c, a)" by (cases kca) auto
    have "r = Inr (options_copy k c a)"
      using F Some kca by (auto simp: loaded_def split: option.splits)
    then show ?thesis using Some kca F L by (simp add: main_copy_unfold)
  qed
qed

lemma fresh_fields [simp]:
  "files (fresh fs) = fs" "out (fresh fs) = []" "commands (fresh fs) = []"
  "listener (fresh fs) = None" "listening (fresh fs) = None" "exit_code (fresh fs) = None"
  "conns (fresh fs) = Map.empty" "sent (fresh fs) = []"
  by (simp_all add: fresh_def)

lemma needs_generation_fresh:
  "needs_generation E (fresh fs) =
     (fs (path_resolve (dirname E) keyFile) = None \<or> fs (path_resolve (dirname E) certFile) = None)"
  by (simp add: needs_generation_def existsSync_def)

lemma main_001_skip:
  "\<not> needs_generation E p \<Longrightarrow> main_001 E p = main_000 E p"
  by (simp add: main_001_unfold bootstrap_generate_skip)

lemma main_001_fail:
  assumes "needs_generation E p"
  shows "files (main_001 E p) =
           (case openssl E of
              None \<Rightarrow> files p
            | Some (k, c) \<Rightarrow> (files p)(path_resolve (cwd E) keyFile \<mapsto> Readable k))
       \<and> commands (main_001 E p) = commands p @ [openssl_command keyFile certFile]
       \<and> listener (main_001 E p) = listener p \<and> listening (main_001 E p) = listening p
       \<and> exit_code (main_001 E p) = Some 1
       \<and> conns (main_001 E p) = conns p \<and> sent (main_001 E p) = sent p
       \<and> last (out (main_001 E p)) =
           console_error [Lit ''Server initialization error:'']
             (ExecError (openssl_command keyFile certFile))"
proof -
  from bootstrap_generate_fail [OF assms] obtain p'
    where "bootstrap_generate E p = (Inl (ExecError (openssl_command keyFile certFile)), p')"
      and "files p' =
           (case openssl E of
              None \<Rightarrow> files p
            | Some (k, c) \<Rightarrow> (files p)(path_resolve (cwd E) keyFile \<mapsto> Readable k))"
      and "commands p' = commands p @ [openssl_command keyFile certFile]"
      and "listener p' = listener p" and "listening p' = listening p"
      and "conns p' = conns p" and "sent p' = sent p"
    by blast
  then show ?thesis by (simp add: main_001_unfold consoleError_def)
qed

lemma main_001_files_commands:
  "commands (main_001 E p) =
     (if needs_generation E p then commands p @ [openssl_command keyFile certFile]
      else commands p)
   \<and> files (main_001 E p) =
     (if needs_generation E p
      then (case openssl E of
              None \<Rightarrow> files p
            | Some (k, c) \<Rightarrow> (files p)(path_resolve (cwd E) keyFile \<mapsto> Readable k))
      else files p)"
proof (cases "needs_generation E p")
  case False
  then show ?thesis using main_000_state [of E p] by (simp add: main_001_skip)
next
  case True
  then show ?thesis using main_001_fail [OF True] by simp
qed

lemma loaded_no_ca: "fs (path_resolve (dirname E) caFile) = None \<Longrightarrow> loaded E fs = None"
  by (simp add: loaded_def readable_def split: option.splits)

lemma main_001_no_ca:
  assumes "files p (path_resolve (dirname E) caFile) = None"
  shows "exit_code (main_001 E p) = Some 1 \<and> listening (main_001 E p) = listening p
       \<and> listener (main_001 E p) = listener p
       \<and> files (main_001 E p) (path_resolve (dirname E) caFile) = None"
proof (cases "needs_generation E p")
  case False
  then show ?thesis
    using main_000_state [of E p] loaded_no_ca [where fs = "files p" and E = E] assms
    by (simp add: main_001_skip)
next
  case True
  then show ?thesis
    using main_001_fail [OF True] assms
    by (simp add: ca_not_key split: option.splits)
qed

lemma main_000_bind_fail:
  assumes "\<not> bind_ok E" and "listener p = None" and "exit_code p = None"
    and "listening p = None" and "listener (main_000 E p) \<noteq> None"
  shows "exit_code (main_000 E p) = None \<and> listening (main_000 E p) = None
       \<and> last (out (main_000 E p)) = console_error [Lit ''Server error:''] (ListenError 8446)"
  using main_000_state [of E p] assms
  by (cases "loaded E (files p)") auto

lemma main_copy_bind_fail:
  assumes "\<not> bind_ok E" and "listener p = None" and "exit_code p = None"
    and "listening p = None" and "listener (main_copy E p) \<noteq> None"
  shows "exit_code (main_copy E p) = None \<and> listening (main_copy E p) = None
       \<and> last (out (main_copy E p)) = console_error [Lit ''Server error:''] (ListenError 8443)"
  using main_copy_state [of E p] assms
  by (cases "loaded E (files p)") auto

lemma main_001_bind_fail:
  assumes "\<not> bind_ok E" and "listener p = None" and "exit_code p = None"
    and "listening p = None" and L: "listener (main_001 E p) \<noteq> None"
  shows "exit_code (main_001 E p) = None \<and> listening (main_001 E p) = None
       \<and> last (out (main_001 E p)) = console_error [Lit ''Server error:''] (ListenError 8446)"
proof (cases "needs_generation E p")
  case False
  then show ?thesis using main_000_bind_fail [of E p] assms by (simp add: main_001_skip)
next
  case True
  then show ?thesis using main_001_fail [OF True] assms by simp
qed

lemma loaded_all_files: "loaded nobind_env all_files = Some (''KEY'', ''CERT'', ''CA'')"
  by (simp add: loaded_def readable_def all_files_def nobind_env_def path_resolve_def
      keyFile_def certFile_def caFile_def)

lemma no_generation_all_files: "\<not> needs_generation nobind_env (fresh all_files)"
  by (simp add: needs_generation_fresh all_files_def nobind_env_def path_resolve_def
      keyFile_def certFile_def)

section \<open>Responses\<close>

lemma root_handler_response:
  "fst (root_handler v conn res p) =
     (if authorized conn then res\<lparr>body := JsonBody (success_payload (peerCertificate conn))\<rparr>
      else res\<lparr>status := 401, body := JsonBody failure_payload\<rparr>)"
  by (simp add: root_handler_def Let_def)

lemma root_handler_frame:
  "files (snd (root_handler v conn res p)) = files p"
  "commands (snd (root_handler v conn res p)) = commands p"
  "listener (snd (root_handler v conn res p)) = listener p"
  "listening (snd (root_handler v conn res p)) = listening p"
  "exit_code (snd (root_handler v conn res p)) = exit_code p"
  "conns (snd (root_handler v conn res p)) = conns p"
  "sent (snd (root_handler v conn res p)) = sent p"
  by (simp_all add: root_handler_def Let_def)

lemma app_response:
  "fst (app v conn req p) =
     (if req_method req = ''OPTIONS''
      then \<lparr>status = 200, headers = cors_headers, body = TextBody ''OK''\<rparr>
      else if (req_method req = ''GET'' \<or> req_method req = ''HEAD'') \<and> path req = ''/''
      then \<lparr>status = (if authorized conn then 200 else 401), headers = cors_headers,
            body = (if req_method req = ''HEAD'' then NoBody
                    else if authorized conn
                    then JsonBody (success_payload (peerCertificate conn))
                    else JsonBody failure_payload)\<rparr>
      else \<lparr>status = 404, headers = cors_headers,
            body = NotFoundPage (req_method req) (path req)\<rparr>)"
  by (simp add: app_def Let_def sendStatus_def root_handler_response split_beta)

lemma app_frame:
  "files (snd (app v conn req p)) = files p"
  "commands (snd (app v conn req p)) = commands p"
  "listener (snd (app v conn req p)) = listener p"
  "listening (snd (app v conn req p)) = listening p"
  "exit_code (snd (app v conn req p)) = exit_code p"
  "conns (snd (app v conn req p)) = conns p"
  "sent (snd (app v conn req p)) = sent p"
  by (simp_all add: app_def Let_def split_beta root_handler_frame)

lemma app_copy_response:
  "fst (app_copy conn req p) =
     (if authorized conn
      then \<lparr>status = 200, headers = [],
            body = TextBody ''Hello, secure world! mTLS connection successful.''\<rparr>
      else \<lparr>status = 401, headers = [],
            body = TextBody ''Client certificate verification failed.''\<rparr>)"
  by (simp add: app_copy_def Let_def)

lemma app_copy_frame:
  "files (snd (app_copy conn req p)) = files p"
  "commands (snd (app_copy conn req p)) = commands p"
  "listener (snd (app_copy conn req p)) = listener p"
  "listening (snd (app_copy conn req p)) = listening p"
  "exit_code (snd (app_copy conn req p)) = exit_code p"
  "conns (snd (app_copy conn req p)) = conns p"
  "sent (snd (app_copy conn req p)) = sent p"
  by (simp_all add: app_copy_def Let_def)

lemma serve_frame:
  "files (snd (serve v conn req p)) = files p"
  "commands (snd (serve v conn req p)) = commands p"
  "listener (snd (serve v conn req p)) = listener p"
  "listening (snd (serve v conn req p)) = listening p"
  "exit_code (snd (serve v conn req p)) = exit_code p"
  "conns (snd (serve v conn req p)) = conns p"
  "sent (snd (serve v conn req p)) = sent p"
  by (simp_all add: serve_def app_frame app_copy_frame)

lemma serve_response_state: "fst (serve v conn req p) = fst (serve v conn req q)"
  by (simp add: serve_def app_response app_copy_response)

lemma authenticated_only_success [simp]:
  "v \<noteq> Mtlsserver_copy \<Longrightarrow>
   authenticated_only v \<lparr>status = n, headers = hs, body = JsonBody (success_payload c)\<rparr>"
  by (cases v) (simp_all add: success_payload_def)

lemma authenticated_only_others [simp]:
  "v \<noteq> Mtlsserver_copy \<Longrightarrow>
   \<not> authenticated_only v \<lparr>status = n, headers = hs, body = JsonBody failure_payload\<rparr>"
  "v \<noteq> Mtlsserver_copy \<Longrightarrow>
   \<not> authenticated_only v \<lparr>status = n, headers = hs, body = NoBody\<rparr>"
  "v \<noteq> Mtlsserver_copy \<Longrightarrow>
   \<not> authenticated_only v \<lparr>status = n, headers = hs, body = TextBody t\<rparr>"
  "v \<noteq> Mtlsserver_copy \<Longrightarrow>
   \<not> authenticated_only v \<lparr>status = n, headers = hs, body = NotFoundPage m q\<rparr>"
  by (cases v; simp add: failure_payload_def)+

lemma serve_authenticated_only:
  "authenticated_only v (fst (serve v conn req p)) \<Longrightarrow> authorized conn"
  by (cases "v = Mtlsserver_copy")
     (auto simp: serve_def app_response app_copy_response split: if_splits)

section \<open>Steps of the running server\<close>

lemma on_error_frame [simp]:
  "files (on_error e p) = files p"
  "commands (on_error e p) = commands p"
  "listener (on_error e p) = listener p"
  "listening (on_error e p) = listening p"
  "exit_code (on_error e p) = exit_code p"
  "conns (on_error e p) = conns p"
  "sent (on_error e p) = sent p"
  by (simp_all add: on_error_def)

lemma on_tlsClientError_frame [simp]:
  "files (on_tlsClientError v e s p) = files p"
  "commands (on_tlsClientError v e s p) = commands p"
  "listener (on_tlsClientError v e s p) = listener p"
  "listening (on_tlsClientError v e s p) = listening p"
  "exit_code (on_tlsClientError v e s p) = exit_code p"
  "conns (on_tlsClientError v e s p) = conns p"
  "sent (on_tlsClientError v e s p) = sent p"
  by (simp_all add: on_tlsClientError_def Let_def split: option.splits)

lemma on_tlsClientError_logged:
  "console_error [Lit ''TLS Client error:''] e \<in> set (out (on_tlsClientError v e s p))"
  by (simp add: on_tlsClientError_def Let_def consoleError_def debugLog_def split: option.splits)

lemma on_secureConnection_frame [simp]:
  "files (on_secureConnection v s p) = files p"
  "commands (on_secureConnection v s p) = commands p"
  "listener (on_secureConnection v s p) = listener p"
  "listening (on_secureConnection v s p) = listening p"
  "exit_code (on_secureConnection v s p) = exit_code p"
  "conns (on_secureConnection v s p) = conns p"
  "sent (on_secureConnection v s p) = sent p"
  by (simp_all add: on_secureConnection_def Let_def split: option.splits)

lemma on_uncaughtException_frame [simp]:
  "files (on_uncaughtException v e p) = files p"
  "commands (on_uncaughtException v e p) = commands p"
  "listener (on_uncaughtException v e p) = listener p"
  "listening (on_uncaughtException v e p) = listening p"
  "exit_code (on_uncaughtException v e p) = (if v = Mtlsserver_copy then Some 1 else exit_code p)"
  "conns (on_uncaughtException v e p) = conns p"
  "sent (on_uncaughtException v e p) = sent p"
  by (simp_all add: on_uncaughtException_def)

lemma step_static:
  "files (step v ev p) = files p"
  "commands (step v ev p) = commands p"
  "listener (step v ev p) = listener p"
  "listening (step v ev p) = listening p"
  by (cases ev; simp add: split_beta serve_frame split: option.splits sum.splits conn_state.splits)+

lemma step_exit_code:
  "exit_code (step v ev p) =
     (case ev of UncaughtException e \<Rightarrow> if v = Mtlsserver_copy then Some 1 else exit_code p
      | _ \<Rightarrow> exit_code p)"
  by (cases ev; simp add: split_beta serve_frame split: option.splits sum.splits conn_state.splits)

lemma step_conns:
  "conns (step v ev p) =
     (case ev of
        Connect c h \<Rightarrow>
          (case listener p of
             None \<Rightarrow> conns p
           | Some opts \<Rightarrow>
               if conns p c \<noteq> None then conns p
               else (conns p)(c \<mapsto> (case handshake opts h of
                                        Inl f \<Rightarrow> Terminated | Inr s \<Rightarrow> Established s)))
      | _ \<Rightarrow> conns p)"
  by (cases ev; simp add: split_beta serve_frame split: option.splits sum.splits conn_state.splits)

lemma step_sent:
  "sent (step v ev p) =
     (case ev of
        Request c r \<Rightarrow>
          (case conns p c of
             Some (Established s) \<Rightarrow> sent p @ [(c, fst (serve v s r p))]
           | _ \<Rightarrow> sent p)
      | _ \<Rightarrow> sent p)"
  by (cases ev; simp add: split_beta serve_frame split: option.splits sum.splits conn_state.splits)

lemma deliver_static:
  "files (deliver v ev p) = files p"
  "commands (deliver v ev p) = commands p"
  "listener (deliver v ev p) = listener p"
  "listening (deliver v ev p) = listening p"
  by (simp_all add: deliver_def step_static)

lemma run_static:
  "files (run v evs p) = files p \<and> commands (run v evs p) = commands p
   \<and> listener (run v evs p) = listener p \<and> listening (run v evs p) = listening p"
  by (induction evs arbitrary: p) (simp_all add: deliver_static)

lemma deliver_conns_kept:
  "conns p c = Some x \<Longrightarrow> conns (deliver v ev p) c = Some x"
  by (cases ev) (auto simp: deliver_def step_conns simp del: step.simps split: option.splits)

lemma run_conns_kept:
  "conns p c = Some x \<Longrightarrow> conns (run v evs p) c = Some x"
  by (induction evs arbitrary: p) (simp_all add: deliver_conns_kept)

lemma deliver_exit_express:
  "v \<noteq> Mtlsserver_copy \<Longrightarrow> exit_code (deliver v ev p) = exit_code p"
  by (cases ev) (simp_all add: deliver_def step_exit_code del: step.simps)

lemma run_exit_express:
  "v \<noteq> Mtlsserver_copy \<Longrightarrow> exit_code (run v evs p) = exit_code p"
  by (induction evs arbitrary: p) (simp_all add: deliver_exit_express)

lemma deliver_agree:
  assumes "agree c p q" and "event_conn ev \<noteq> Some c"
  shows "agree c (deliver v ev p) (deliver v ev q)"
proof (cases ev)
  case (Connect c' h)
  then have ne: "c' \<noteq> c" using assms(2) by simp
  have same: "conns p c' = conns q c'"
    using assms(1) ne by (metis agree_def fun_upd_other)
  have upd: "((conns p)(c' \<mapsto> x))(c := None) = ((conns q)(c' \<mapsto> x))(c := None)" for x
    using assms(1) ne by (metis agree_def fun_upd_twist)
  show ?thesis
    using assms(1) same upd
    by (simp add: agree_def deliver_def step_static step_exit_code step_conns step_sent Connect
        del: step.simps split: option.splits)
next
  case (Request c' r)
  then have ne: "c' \<noteq> c" using assms(2) by simp
  have same: "conns p c' = conns q c'"
    using assms(1) ne by (metis agree_def fun_upd_other)
  show ?thesis
    using assms(1) same serve_response_state [of v _ r p q]
    by (simp add: agree_def deliver_def step_static step_exit_code step_conns step_sent Request
        del: step.simps split: option.splits conn_state.splits)
next
  case (ServerError e)
  then show ?thesis
    using assms(1)
    by (simp add: agree_def deliver_def step_static step_exit_code step_conns step_sent
        del: step.simps)
next
  case (UncaughtException e)
  then show ?thesis
    using assms(1)
    by (simp add: agree_def deliver_def step_static step_exit_code step_conns step_sent
        del: step.simps)
qed

lemma run_agree:
  assumes "agree c p q" and "\<forall>ev \<in> set evs. event_conn ev \<noteq> Some c"
  shows "agree c (run v evs p) (run v evs q)"
  using assms
  by (induction evs arbitrary: p q) (simp_all add: deliver_agree)

lemma main_conns_sent:
  "conns (main v E p) = conns p \<and> sent (main v E p) = sent p"
proof (cases v)
  case Part_000
  then show ?thesis using main_000_state [of E p] by simp
next
  case Part_001
  show ?thesis
  proof (cases "needs_generation E p")
    case False
    then show ?thesis using Part_001 main_000_state [of E p] by (simp add: main_001_skip)
  next
    case True
    then show ?thesis using Part_001 main_001_fail [OF True] by simp
  qed
next
  case Mtlsserver_copy
  then show ?thesis using main_copy_state [of E p] by simp
qed

lemma main_listener_express:
  assumes "v \<noteq> Mtlsserver_copy" and "listener p = None"
    and "listener (main v E p) = Some opts"
  shows "\<exists>k c a. opts = options k c a"
proof -
  have M0: "\<exists>k c a. opts = options k c a"
    if "listener q = None" and "listener (main_000 E q) = Some opts" for q
    using main_000_state [of E q] that
    by (cases "loaded E (files q)") auto
  show ?thesis
  proof (cases v)
    case Part_000
    then show ?thesis using M0 [of p] assms by simp
  next
    case Part_001
    show ?thesis
    proof (cases "needs_generation E p")
      case False
      then show ?thesis using M0 [of p] assms Part_001 by (simp add: main_001_skip)
    next
      case True
      then show ?thesis using main_001_fail [OF True] assms Part_001 by simp
    qed
  next
    case Mtlsserver_copy
    then show ?thesis using assms by simp
  qed
qed

lemma options_policy:
  "minVersion (options k c a) = Some TLSv1_2 \<and> maxVersion (options k c a) = Some TLSv1_3
   \<and> cipher_list (options k c a) =
       Some [''ECDHE-ECDSA-AES128-GCM-SHA256'', ''ECDHE-RSA-AES128-GCM-SHA256'',
             ''ECDHE-ECDSA-AES256-GCM-SHA384'', ''ECDHE-RSA-AES256-GCM-SHA384'']"
  by (simp add: options_def cipher_list_def)

lemma handshake_version_gate:
  assumes "minVersion opts = Some lo" and "maxVersion opts = Some hi"
    and "version_rank (negotiated h) < version_rank lo
         \<or> version_rank hi < version_rank (negotiated h)"
  shows "handshake opts h = Inl ProtocolMismatch"
  using assms by (auto simp: handshake_def version_allowed_def)

lemma handshake_authorized:
  "handshake opts h = Inr s \<Longrightarrow> authorized s \<Longrightarrow> chain_verified h"
  by (auto simp: handshake_def socket_of_def split: if_splits)

lemma deliver_trusted:
  assumes "trusted_state v H p"
  shows "trusted_state v (insert ev H) (deliver v ev p)"
proof (cases ev)
  case (Connect c h)
  show ?thesis
    using assms handshake_authorized [of _ h]
    unfolding trusted_state_def Connect
    by (auto simp: deliver_def step_conns step_sent simp del: step.simps
        split: option.splits sum.splits)
next
  case (Request c r)
  show ?thesis
    using assms serve_authenticated_only [of v _ r p]
    unfolding trusted_state_def Request
    by (auto simp: deliver_def step_conns step_sent simp del: step.simps
        split: option.splits conn_state.splits)
next
  case (ServerError e)
  then show ?thesis
    using assms unfolding trusted_state_def
    by (auto simp: deliver_def step_conns step_sent simp del: step.simps)
next
  case (UncaughtException e)
  then show ?thesis
    using assms unfolding trusted_state_def
    by (auto simp: deliver_def step_conns step_sent simp del: step.simps)
qed

lemma run_trusted:
  "trusted_state v H p \<Longrightarrow> trusted_state v (H \<union> set evs) (run v evs p)"
proof (induction evs arbitrary: p H)
  case Nil
  then show ?case by simp
next
  case (Cons ev evs)
  from Cons.IH [OF deliver_trusted [OF Cons.prems, of ev]]
  show ?case by simp
qed

lemma main_trusted: "trusted_state v {} (main v E (fresh fs))"
  using main_conns_sent [of v E "fresh fs"] by (simp add: trusted_state_def)

lemma loaded_app_env: "loaded app_env all_files = Some (''KEY'', ''CERT'', ''CA'')"
  by (simp add: loaded_def readable_def all_files_def app_env_def path_resolve_def
      keyFile_def certFile_def caFile_def)

lemma main_000_app_env:
  "exit_code (main_000 app_env (fresh all_files)) = None
   \<and> listening (main_000 app_env (fresh all_files)) = Some 8446
   \<and> listener (main_000 app_env (fresh all_files)) = Some (options ''KEY'' ''CERT'' ''CA'')
   \<and> conns (main_000 app_env (fresh all_files)) = Map.empty
   \<and> sent (main_000 app_env (fresh all_files)) = []"
proof -
  have "bind_ok app_env" by (simp add: app_env_def)
  then show ?thesis
    using main_000_state [of app_env "fresh all_files"] loaded_app_env by simp
qed

lemma handshake_good_client:
  "handshake (options ''KEY'' ''CERT'' ''CA'') good_client
     = Inr (socket_of (options ''KEY'' ''CERT'' ''CA'') good_client)"
  by (simp add: handshake_def version_allowed_def options_def good_client_def)

lemma handshake_old_client:
  "handshake (options ''KEY'' ''CERT'' ''CA'') old_client = Inl ProtocolMismatch"
  by (simp add: handshake_def version_allowed_def options_def old_client_def)

lemma good_client_served:
  "sent (run Part_000 [Connect 0 good_client, Request 0 get_root]
           (main Part_000 app_env (fresh all_files)))
     = [(0, \<lparr>status = 200, headers = cors_headers,
             body = JsonBody (success_payload (presented good_client))\<rparr>)]"
proof -
  have A: "authorized (socket_of (options ''KEY'' ''CERT'' ''CA'') good_client)"
    "peerCertificate (socket_of (options ''KEY'' ''CERT'' ''CA'') good_client)
       = presented good_client"
    by (simp_all add: socket_of_def options_def good_client_def)
  show ?thesis
    using main_000_app_env
    by (simp add: deliver_def step_static step_exit_code step_conns step_sent
        handshake_good_client serve_def app_response get_root_def A del: step.simps)
qed

section \<open>Claims on the certificate bootstrap\<close>

text \<open>
  Claim C3, amended. The startup of part 001 runs the generation exactly when the server key
  or the server certificate is absent from the script directory (one of the two is
  enough), and then runs it once; when both are present no generation runs and no file
  changes.
\<close>

theorem generation_when_either_absent:
  "commands (main_001 E (fresh fs)) =
     (if fs (path_resolve (dirname E) keyFile) = None
         \<or> fs (path_resolve (dirname E) certFile) = None
      then [openssl_command keyFile certFile] else [])
   \<and> (fs (path_resolve (dirname E) keyFile) \<noteq> None
        \<and> fs (path_resolve (dirname E) certFile) \<noteq> None
      \<longrightarrow> files (main_001 E (fresh fs)) = fs)"
  using main_001_files_commands [of E "fresh fs"]
  by (simp add: needs_generation_fresh)

text \<open>
  The claim as first stated fails: with the key present and the certificate absent the
  generation runs, and it replaces the key that was there.
\<close>

theorem generation_when_either_absent_counterexample:
  "existsSync (fresh key_only) (path_resolve (dirname app_env) keyFile)
   \<and> commands (main_001 app_env (fresh key_only)) = [openssl_command keyFile certFile]
   \<and> files (fresh key_only) ''/app/server_key.pem'' = Some (Readable ''OLD KEY'')
   \<and> files (main_001 app_env (fresh key_only)) ''/app/server_key.pem''
       = Some (Readable ''NEW KEY'')"
proof -
  have N: "needs_generation app_env (fresh key_only)"
    by (simp add: needs_generation_fresh app_env_def key_only_def path_resolve_def
        keyFile_def certFile_def)
  have O: "openssl app_env = Some (''NEW KEY'', ''NEW CERT'')"
    by (simp add: app_env_def)
  have C: "cwd app_env = ''/app''" "dirname app_env = ''/app''"
    by (simp_all add: app_env_def)
  show ?thesis
    using main_001_files_commands [of app_env "fresh key_only"] N O
    by (simp add: C existsSync_def path_resolve_def keyFile_def certFile_def key_only_def)
qed

theorem generation_when_either_absent_witness:
  "commands (main_001 app_env (fresh all_files)) = []
   \<and> files (main_001 app_env (fresh all_files)) = all_files"
  using generation_when_either_absent [of app_env all_files]
  by (simp add: app_env_def all_files_def path_resolve_def keyFile_def certFile_def)

text \<open>
  Claim C5. When the CA certificate is absent from the script directory at startup, every
  variant ends with exit status 1, with no listener created and no port bound, and the CA
  file is still absent afterwards: the generation of part 001 never writes it.
\<close>

theorem missing_ca_is_fatal:
  assumes "fs (path_resolve (dirname E) caFile) = None"
  shows "exit_code (main v E (fresh fs)) = Some 1
       \<and> listening (main v E (fresh fs)) = None
       \<and> listener (main v E (fresh fs)) = None
       \<and> files (main v E (fresh fs)) (path_resolve (dirname E) caFile) = None"
proof (cases v)
  case Part_000
  then show ?thesis
    using main_000_state [of E "fresh fs"] loaded_no_ca [where fs = fs and E = E] assms by simp
next
  case Part_001
  then show ?thesis
    using main_001_no_ca [of "fresh fs" E] assms by simp
next
  case Mtlsserver_copy
  then show ?thesis
    using main_copy_state [of E "fresh fs"] loaded_no_ca [where fs = fs and E = E] assms by simp
qed

theorem missing_ca_is_fatal_witness:
  "no_ca (path_resolve (dirname app_env) caFile) = None
   \<and> exit_code (main Part_001 app_env (fresh no_ca)) = Some 1
   \<and> listening (main Part_001 app_env (fresh no_ca)) = None
   \<and> listener (main Part_001 app_env (fresh no_ca)) = None
   \<and> files (main Part_001 app_env (fresh no_ca)) ''/app/ca_cert.pem'' = None"
proof -
  have h: "no_ca (path_resolve (dirname app_env) caFile) = None"
    by (simp add: no_ca_def app_env_def path_resolve_def caFile_def)
  have "path_resolve (dirname app_env) caFile = ''/app/ca_cert.pem''"
    by (simp add: app_env_def path_resolve_def caFile_def)
  then show ?thesis
    using h missing_ca_is_fatal [where fs = no_ca and E = app_env and v = Part_001] by simp
qed

text \<open>
  Claim C7, at the input where the code departs from it. When the server key and the
  server certificate both exist, a startup of part 001 runs no generation and leaves
  every file as it was, and so does a second startup: so far the claim holds. When both
  are absent, the startup runs the generation once, but the one run produces no pair:
  \<^verbatim>\<open>openssl\<close> rejects the subject name built from \<open>DOMAIN_NAME\<close>, so at most the
  key is written, the certificate stays absent, the process exits with status 1, and the
  next startup runs the generation again.
\<close>

theorem generation_repeats_without_certificate:
  "(fs (path_resolve (dirname E) keyFile) \<noteq> None
      \<and> fs (path_resolve (dirname E) certFile) \<noteq> None \<longrightarrow>
      commands (main_001 E (fresh fs)) = []
      \<and> files (main_001 E (fresh fs)) = fs
      \<and> commands (main_001 E (fresh (files (main_001 E (fresh fs))))) = []
      \<and> files (main_001 E (fresh (files (main_001 E (fresh fs))))) = fs)
   \<and> (fs (path_resolve (dirname E) keyFile) = None
      \<and> fs (path_resolve (dirname E) certFile) = None \<longrightarrow>
      commands (main_001 E (fresh fs)) = [openssl_command keyFile certFile]
      \<and> exit_code (main_001 E (fresh fs)) = Some 1
      \<and> files (main_001 E (fresh fs)) =
          (case openssl E of
             None \<Rightarrow> fs
           | Some (k, c) \<Rightarrow> fs(path_resolve (cwd E) keyFile \<mapsto> Readable k))
      \<and> files (main_001 E (fresh fs)) (path_resolve (dirname E) certFile) = None
      \<and> commands (main_001 E (fresh (files (main_001 E (fresh fs)))))
          = [openssl_command keyFile certFile])"
proof -
  have once: "commands (main_001 E (fresh g)) = [] \<and> files (main_001 E (fresh g)) = g"
    if "g (path_resolve (dirname E) keyFile) \<noteq> None"
      and "g (path_resolve (dirname E) certFile) \<noteq> None" for g
    using main_001_files_commands [of E "fresh g"] that
    by (simp add: needs_generation_fresh)
  have run: "commands (main_001 E (fresh g)) = [openssl_command keyFile certFile]
      \<and> exit_code (main_001 E (fresh g)) = Some 1
      \<and> files (main_001 E (fresh g)) =
          (case openssl E of
             None \<Rightarrow> g
           | Some (k, c) \<Rightarrow> g(path_resolve (cwd E) keyFile \<mapsto> Readable k))"
    if "g (path_resolve (dirname E) certFile) = None" for g
  proof -
    have "needs_generation E (fresh g)"
      using that by (simp add: needs_generation_fresh)
    from main_001_fail [OF this] show ?thesis by (simp cong: option.case_cong)
  qed
  have absent: "files (main_001 E (fresh fs)) (path_resolve (dirname E) certFile) = None"
    if "fs (path_resolve (dirname E) certFile) = None"
    using run [of fs] that by (simp add: cert_not_key split: option.splits)
  show ?thesis
    using once [of fs] once [of "files (main_001 E (fresh fs))"] run [of fs]
      run [of "files (main_001 E (fresh fs))"] absent
    by auto
qed

theorem generation_repeats_without_certificate_witness:
  "commands (main_001 app_env (fresh all_files)) = []
   \<and> files (main_001 app_env (fresh all_files)) = all_files
   \<and> commands (main_001 app_env (fresh no_files)) = [openssl_command keyFile certFile]
   \<and> exit_code (main_001 app_env (fresh no_files)) = Some 1
   \<and> files (main_001 app_env (fresh no_files)) = [''/app/server_key.pem'' \<mapsto> Readable ''NEW KEY'']
   \<and> commands (main_001 app_env (fresh (files (main_001 app_env (fresh no_files)))))
       = [openssl_command keyFile certFile]"
proof -
  have h1: "all_files (path_resolve (dirname app_env) keyFile) \<noteq> None
      \<and> all_files (path_resolve (dirname app_env) certFile) \<noteq> None"
    by (simp add: all_files_def app_env_def path_resolve_def keyFile_def certFile_def)
  have h2: "no_files (path_resolve (dirname app_env) keyFile) = None
      \<and> no_files (path_resolve (dirname app_env) certFile) = None"
    by (simp add: no_files_def)
  have h3: "(case openssl app_env of
               None \<Rightarrow> no_files
             | Some (k, c) \<Rightarrow> no_files(path_resolve (cwd app_env) keyFile \<mapsto> Readable k))
            = [''/app/server_key.pem'' \<mapsto> Readable ''NEW KEY'']"
    by (simp add: app_env_def no_files_def path_resolve_def keyFile_def)
  show ?thesis
    using h1 h2 generation_repeats_without_certificate [of all_files app_env]
      generation_repeats_without_certificate [of no_files app_env]
    unfolding h3 by blast
qed

text \<open>
  Claim C10, at the input where the code departs from it. Whenever the startup of part
  001 generates, the one command it runs is the same fixed text, whatever the files and
  the environment: it asks for a self-signed (\<^verbatim>\<open>-x509\<close>) certificate on a new RSA
  key of 2048 bits, for 365 days, with the constant URL as CN. But the two slashes of
  the URL end the CN after \<^verbatim>\<open>https:\<close> and leave a part with no \<^verbatim>\<open>=\<close>, so
  \<^verbatim>\<open>openssl\<close> rejects the subject name (the same name with the host alone is
  accepted): no certificate is produced, at most the key file is written. The failure
  does reach the \<^verbatim>\<open>catch\<close> of the startup: it is logged, the process exits with
  status 1 and no server is created.
\<close>

theorem generation_rejects_domain_name:
  assumes "needs_generation E (fresh fs)"
  shows "commands (main_001 E (fresh fs)) =
           [''openssl req -new -newkey rsa:2048 -days 365 -nodes -x509 -keyout server_key.pem -out server_cert.pem -subj \"/C=US/ST=State/L=City/O=Organization/OU=OrgUnit/CN=https://mtlsserver-52a108593257.herokuapp.com\"'']
       \<and> arg_after ''-subj'' (shell_words False [] (openssl_command keyFile certFile)) =
           Some (''/C=US/ST=State/L=City/O=Organization/OU=OrgUnit/CN='' @ DOMAIN_NAME)
       \<and> \<not> parse_name (''/C=US/ST=State/L=City/O=Organization/OU=OrgUnit/CN='' @ DOMAIN_NAME)
       \<and> parse_name (''/C=US/ST=State/L=City/O=Organization/OU=OrgUnit/CN=''
                       @ drop 8 DOMAIN_NAME)
       \<and> files (main_001 E (fresh fs)) =
           (case openssl E of
              None \<Rightarrow> fs
            | Some (k, c) \<Rightarrow> fs(path_resolve (cwd E) keyFile \<mapsto> Readable k))
       \<and> exit_code (main_001 E (fresh fs)) = Some 1
       \<and> listener (main_001 E (fresh fs)) = None
       \<and> listening (main_001 E (fresh fs)) = None
       \<and> last (out (main_001 E (fresh fs))) =
           console_error [Lit ''Server initialization error:'']
             (ExecError (openssl_command keyFile certFile))"
proof -
  have C: "commands (main_001 E (fresh fs)) = [openssl_command keyFile certFile]"
    using main_001_fail [OF assms] by simp
  have A: "arg_after ''-subj'' (shell_words False [] (openssl_command keyFile certFile)) =
           Some (''/C=US/ST=State/L=City/O=Organization/OU=OrgUnit/CN='' @ DOMAIN_NAME)"
    by (simp add: openssl_args DOMAIN_NAME_def)
  have N: "\<not> parse_name (''/C=US/ST=State/L=City/O=Organization/OU=OrgUnit/CN='' @ DOMAIN_NAME)"
    using subject_rejected by (simp add: DOMAIN_NAME_def)
  have H: "parse_name (''/C=US/ST=State/L=City/O=Organization/OU=OrgUnit/CN=''
                       @ drop 8 DOMAIN_NAME)"
    by (simp add: DOMAIN_NAME_def parse_name_def)
  have R: "files (main_001 E (fresh fs)) =
           (case openssl E of
              None \<Rightarrow> fs
            | Some (k, c) \<Rightarrow> fs(path_resolve (cwd E) keyFile \<mapsto> Readable k))
       \<and> exit_code (main_001 E (fresh fs)) = Some 1
       \<and> listener (main_001 E (fresh fs)) = None
       \<and> listening (main_001 E (fresh fs)) = None
       \<and> last (out (main_001 E (fresh fs))) =
           console_error [Lit ''Server initialization error:'']
             (ExecError (openssl_command keyFile certFile))"
    using main_001_fail [OF assms] by (simp cong: option.case_cong)
  show ?thesis
    using C [unfolded openssl_command_server] A N H R by blast
qed

theorem generation_rejects_domain_name_witness:
  "needs_generation app_env (fresh no_files)
   \<and> commands (main_001 app_env (fresh no_files)) =
       [''openssl req -new -newkey rsa:2048 -days 365 -nodes -x509 -keyout server_key.pem -out server_cert.pem -subj \"/C=US/ST=State/L=City/O=Organization/OU=OrgUnit/CN=https://mtlsserver-52a108593257.herokuapp.com\"'']
   \<and> files (main_001 app_env (fresh no_files)) = [''/app/server_key.pem'' \<mapsto> Readable ''NEW KEY'']
   \<and> exit_code (main_001 app_env (fresh no_files)) = Some 1
   \<and> listening (main_001 app_env (fresh no_files)) = None"
proof -
  have n: "needs_generation app_env (fresh no_files)"
    by (simp add: needs_generation_fresh no_files_def)
  have f: "(case openssl app_env of
               None \<Rightarrow> no_files
             | Some (k, c) \<Rightarrow> no_files(path_resolve (cwd app_env) keyFile \<mapsto> Readable k))
            = [''/app/server_key.pem'' \<mapsto> Readable ''NEW KEY'']"
    by (simp add: app_env_def no_files_def path_resolve_def keyFile_def)
  show ?thesis
    using n generation_rejects_domain_name [OF n] unfolding f by blast
qed

section \<open>Claims on the listener\<close>

text \<open>
  Claim C6, amended. When the startup has created the server and the listener cannot bind
  to its port, the \<^verbatim>\<open>error\<close> handler logs the error and nothing else happens:
  \<^verbatim>\<open>process.exit\<close> is not called, so the process does not end with a nonzero
  status, and no port is bound.
\<close>

theorem bind_failure_only_logged:
  assumes "\<not> bind_ok E" and "listener (main v E (fresh fs)) \<noteq> None"
  shows "exit_code (main v E (fresh fs)) = None
       \<and> listening (main v E (fresh fs)) = None
       \<and> last (out (main v E (fresh fs))) =
           console_error [Lit ''Server error:''] (ListenError (port v))"
proof (cases v)
  case Part_000
  then show ?thesis using main_000_bind_fail [of E "fresh fs"] assms by simp
next
  case Part_001
  then show ?thesis using main_001_bind_fail [of E "fresh fs"] assms by simp
next
  case Mtlsserver_copy
  then show ?thesis using main_copy_bind_fail [of E "fresh fs"] assms by simp
qed

text \<open>
  The claim as first stated fails: with the three files in place and a port that cannot
  be bound, the server is created and the process has no exit status.
\<close>

theorem bind_failure_only_logged_counterexample:
  "\<not> bind_ok nobind_env
   \<and> listener (main Part_001 nobind_env (fresh all_files))
       = Some (options ''KEY'' ''CERT'' ''CA'')
   \<and> listening (main Part_001 nobind_env (fresh all_files)) = None
   \<and> exit_code (main Part_001 nobind_env (fresh all_files)) = None"
proof -
  have "\<not> bind_ok nobind_env" by (simp add: nobind_env_def)
  then show ?thesis
    using main_000_state [of nobind_env "fresh all_files"] loaded_all_files
    by (simp add: main_001_skip [OF no_generation_all_files])
qed

theorem bind_failure_only_logged_witness:
  "\<not> bind_ok nobind_env
   \<and> listener (main Part_000 nobind_env (fresh all_files)) \<noteq> None
   \<and> exit_code (main Part_000 nobind_env (fresh all_files)) = None
   \<and> listening (main Part_000 nobind_env (fresh all_files)) = None
   \<and> last (out (main Part_000 nobind_env (fresh all_files))) =
       console_error [Lit ''Server error:''] (ListenError 8446)"
proof -
  have b: "\<not> bind_ok nobind_env" by (simp add: nobind_env_def)
  have l: "listener (main Part_000 nobind_env (fresh all_files)) \<noteq> None"
    using main_000_state [of nobind_env "fresh all_files"] loaded_all_files by simp
  show ?thesis
    using b l bind_failure_only_logged [OF b l] by simp
qed

text \<open>
  Claim C4, amended. The listener of each Express variant (parts 000 and 001) is created
  with minimum version TLSv1.2, maximum version TLSv1.3 and the explicit list of four
  cipher suites; no event changes the options of a running server; and a client that
  negotiates a version below the minimum or above the maximum fails the handshake.
\<close>

theorem express_transport_policy:
  assumes "v \<noteq> Mtlsserver_copy" and "listener (main v E (fresh fs)) = Some opts"
  shows "minVersion opts = Some TLSv1_2 \<and> maxVersion opts = Some TLSv1_3
       \<and> cipher_list opts =
           Some [''ECDHE-ECDSA-AES128-GCM-SHA256'', ''ECDHE-RSA-AES128-GCM-SHA256'',
                 ''ECDHE-ECDSA-AES256-GCM-SHA384'', ''ECDHE-RSA-AES256-GCM-SHA384'']
       \<and> listener (run v evs (main v E (fresh fs))) = Some opts
       \<and> (version_rank (negotiated h) < version_rank TLSv1_2
            \<or> version_rank TLSv1_3 < version_rank (negotiated h)
          \<longrightarrow> handshake opts h = Inl ProtocolMismatch)"
proof -
  obtain k c a where O: "opts = options k c a"
    using main_listener_express [OF assms(1) _ assms(2)] by auto
  have P: "minVersion opts = Some TLSv1_2" "maxVersion opts = Some TLSv1_3"
    "cipher_list opts =
           Some [''ECDHE-ECDSA-AES128-GCM-SHA256'', ''ECDHE-RSA-AES128-GCM-SHA256'',
                 ''ECDHE-ECDSA-AES256-GCM-SHA384'', ''ECDHE-RSA-AES256-GCM-SHA384'']"
    using options_policy [of k c a] by (simp_all add: O)
  have R: "listener (run v evs (main v E (fresh fs))) = Some opts"
    using run_static [of v evs "main v E (fresh fs)"] assms(2) by simp
  have G: "handshake opts h = Inl ProtocolMismatch"
    if "version_rank (negotiated h) < version_rank TLSv1_2
        \<or> version_rank TLSv1_3 < version_rank (negotiated h)"
    using handshake_version_gate [OF P(1) P(2) that] .
  show ?thesis using P R G by blast
qed

text \<open>
  The claim as first stated, for every variant, fails: \<^verbatim>\<open>mtlsserver copy.js\<close> gives
  its listener no version bound and no cipher list.
\<close>

theorem express_transport_policy_counterexample:
  "listener (main Mtlsserver_copy app_env (fresh all_files))
     = Some (options_copy ''KEY'' ''CERT'' ''CA'')
   \<and> minVersion (options_copy ''KEY'' ''CERT'' ''CA'') = None
   \<and> maxVersion (options_copy ''KEY'' ''CERT'' ''CA'') = None
   \<and> ciphers (options_copy ''KEY'' ''CERT'' ''CA'') = None"
  using main_copy_state [of app_env "fresh all_files"] loaded_app_env
  by (simp add: options_copy_def)

theorem express_transport_policy_witness:
  "Part_000 \<noteq> Mtlsserver_copy
   \<and> listener (main Part_000 app_env (fresh all_files)) = Some (options ''KEY'' ''CERT'' ''CA'')
   \<and> minVersion (options ''KEY'' ''CERT'' ''CA'') = Some TLSv1_2
   \<and> maxVersion (options ''KEY'' ''CERT'' ''CA'') = Some TLSv1_3
   \<and> version_rank (negotiated old_client) < version_rank TLSv1_2
   \<and> handshake (options ''KEY'' ''CERT'' ''CA'') old_client = Inl ProtocolMismatch"
proof -
  have a: "Part_000 \<noteq> Mtlsserver_copy" by simp
  have b: "listener (main Part_000 app_env (fresh all_files))
             = Some (options ''KEY'' ''CERT'' ''CA'')"
    using main_000_app_env by simp
  have c: "version_rank (negotiated old_client) < version_rank TLSv1_2"
    by (simp add: old_client_def)
  show ?thesis
    using a b c express_transport_policy [OF a b, of "[]" old_client] by simp
qed

text \<open>
  Claim C8. A handshake that fails on a new connection ends that connection and nothing
  else: the error is logged by the \<^verbatim>\<open>tlsClientError\<close> handler, the process does not
  exit and keeps listening, no response is sent, and every other connection is as it
  was. The connection stays ended whatever comes later (the server does not try again),
  and all that happens later on other connections is what would have happened without the
  failed handshake.
\<close>

theorem handshake_error_contained:
  assumes "exit_code p = None" and "listening p \<noteq> None" and "listener p = Some opts"
    and "conns p c = None" and "handshake opts h = Inl f"
  shows "conns (deliver v (Connect c h) p) c = Some Terminated
       \<and> (\<forall>c'. c' \<noteq> c \<longrightarrow> conns (deliver v (Connect c h) p) c' = conns p c')
       \<and> sent (deliver v (Connect c h) p) = sent p
       \<and> exit_code (deliver v (Connect c h) p) = None
       \<and> listening (deliver v (Connect c h) p) = listening p
       \<and> (\<exists>rest. out (deliver v (Connect c h) p)
                   = out p @ console_error [Lit ''TLS Client error:''] (TlsError f) # rest)
       \<and> conns (run v evs (deliver v (Connect c h) p)) c = Some Terminated
       \<and> ((\<forall>ev \<in> set evs. event_conn ev \<noteq> Some c) \<longrightarrow>
            sent (run v evs (deliver v (Connect c h) p)) = sent (run v evs p)
            \<and> exit_code (run v evs (deliver v (Connect c h) p)) = exit_code (run v evs p)
            \<and> (\<forall>c'. c' \<noteq> c \<longrightarrow>
                 conns (run v evs (deliver v (Connect c h) p)) c' = conns (run v evs p) c'))"
proof -
  let ?p' = "deliver v (Connect c h) p"
  have D: "?p' = on_tlsClientError v (TlsError f) (Some (socket_of opts h))
                   (p\<lparr>conns := (conns p)(c \<mapsto> Terminated)\<rparr>)"
    using assms by (auto simp: deliver_def)
  have C: "conns ?p' c = Some Terminated" by (simp add: D)
  have O: "\<forall>c'. c' \<noteq> c \<longrightarrow> conns ?p' c' = conns p c'" by (simp add: D)
  have S: "sent ?p' = sent p" "exit_code ?p' = None" "listening ?p' = listening p"
    using assms(1) by (simp_all add: D)
  have L: "\<exists>rest. out ?p' = out p @ console_error [Lit ''TLS Client error:''] (TlsError f) # rest"
    by (simp add: D on_tlsClientError_def Let_def consoleError_def debugLog_def
        split: option.splits)
  have T: "conns (run v evs ?p') c = Some Terminated"
    by (rule run_conns_kept [OF C])
  have A: "agree c ?p' p"
    using assms(1) by (simp add: agree_def D deliver_static)
  have N: "sent (run v evs ?p') = sent (run v evs p)
            \<and> exit_code (run v evs ?p') = exit_code (run v evs p)
            \<and> (\<forall>c'. c' \<noteq> c \<longrightarrow> conns (run v evs ?p') c' = conns (run v evs p) c')"
    if "\<forall>ev \<in> set evs. event_conn ev \<noteq> Some c"
  proof -
    have "agree c (run v evs ?p') (run v evs p)"
      by (rule run_agree [OF A that])
    then show ?thesis
      by (metis agree_def fun_upd_other)
  qed
  show ?thesis using C O S L T N by blast
qed

theorem handshake_error_contained_witness:
  "conns (deliver Part_000 (Connect 7 old_client) (main Part_000 app_env (fresh all_files))) 7
     = Some Terminated
   \<and> exit_code (deliver Part_000 (Connect 7 old_client) (main Part_000 app_env (fresh all_files)))
     = None
   \<and> sent (run Part_000 [Connect 0 good_client, Request 0 get_root]
        (deliver Part_000 (Connect 7 old_client) (main Part_000 app_env (fresh all_files))))
     = [(0, \<lparr>status = 200, headers = cors_headers,
             body = JsonBody (success_payload (presented good_client))\<rparr>)]"
proof -
  have h: "exit_code (main Part_000 app_env (fresh all_files)) = None"
    "listening (main Part_000 app_env (fresh all_files)) \<noteq> None"
    "listener (main Part_000 app_env (fresh all_files)) = Some (options ''KEY'' ''CERT'' ''CA'')"
    "conns (main Part_000 app_env (fresh all_files)) 7 = None"
    using main_000_app_env by simp_all
  have e: "\<forall>ev \<in> set [Connect 0 good_client, Request 0 get_root]. event_conn ev \<noteq> Some 7"
    by simp
  show ?thesis
    using e good_client_served
      handshake_error_contained [OF h handshake_old_client,
        of Part_000 "[Connect 0 good_client, Request 0 get_root]"]
    by simp
qed

section \<open>Claims on request handling\<close>

text \<open>
  Claim C1. In every variant the success response is served only on a connection whose
  authorization flag is true; and in every run of a started server, a success response
  that went out on a connection implies that this connection stands with its flag true
  and was opened by a client whose certificate chain verified against the CA. No request,
  whatever its method and path, gets the success response otherwise.
\<close>

theorem authenticated_only_after_verification:
  "(authenticated_only v (fst (serve v conn req p)) \<longrightarrow> authorized conn)
   \<and> ((c, res) \<in> set (sent (run v evs (main v E (fresh fs)))) \<and> authenticated_only v res
        \<longrightarrow> (\<exists>h s. Connect c h \<in> set evs \<and> chain_verified h
                   \<and> conns (run v evs (main v E (fresh fs))) c = Some (Established s)
                   \<and> authorized s))"
proof -
  have "trusted_state v ({} \<union> set evs) (run v evs (main v E (fresh fs)))"
    by (rule run_trusted [OF main_trusted])
  then show ?thesis
    using serve_authenticated_only [of v conn req p]
    unfolding trusted_state_def by simp blast
qed

theorem authenticated_only_after_verification_witness:
  "(0, \<lparr>status = 200, headers = cors_headers,
        body = JsonBody (success_payload (presented good_client))\<rparr>)
     \<in> set (sent (run Part_000 [Connect 0 good_client, Request 0 get_root]
                    (main Part_000 app_env (fresh all_files))))
   \<and> authenticated_only Part_000
        \<lparr>status = 200, headers = cors_headers,
         body = JsonBody (success_payload (presented good_client))\<rparr>
   \<and> (\<exists>h. Connect 0 h \<in> set [Connect 0 good_client, Request 0 get_root] \<and> chain_verified h)
   \<and> authenticated_only Part_000 (fst (serve Part_000 trusted_client get_root (fresh all_files)))
   \<and> authorized trusted_client"
proof -
  have s: "authenticated_only Part_000
             (fst (serve Part_000 trusted_client get_root (fresh all_files)))"
    by (simp add: serve_def app_response get_root_def trusted_client_def success_payload_def)
  have a: "(0, \<lparr>status = 200, headers = cors_headers,
        body = JsonBody (success_payload (presented good_client))\<rparr>)
     \<in> set (sent (run Part_000 [Connect 0 good_client, Request 0 get_root]
                    (main Part_000 app_env (fresh all_files))))"
    by (simp only: good_client_served) simp
  have b: "authenticated_only Part_000
        \<lparr>status = 200, headers = cors_headers,
         body = JsonBody (success_payload (presented good_client))\<rparr>"
    by (rule authenticated_only_success) simp
  show ?thesis
    using a b s authenticated_only_after_verification
      [where v = Part_000 and c = 0 and evs = "[Connect 0 good_client, Request 0 get_root]"
         and E = app_env and fs = all_files and conn = trusted_client and req = get_root
         and p = "fresh all_files"
         and res = "\<lparr>status = 200, headers = cors_headers,
                      body = JsonBody (success_payload (presented good_client))\<rparr>"]
    by blast
qed

text \<open>
  Claim C2. For every GET request on the root path of an Express variant: on an authorized
  connection the response is the success payload that echoes subject, issuer,
  \<^verbatim>\<open>valid_from\<close> and \<^verbatim>\<open>valid_to\<close> of the peer certificate; on any other
  connection it is status 401 with the body
  \<^verbatim>\<open>{status: 'error', message: 'Client certificate verification failed'}\<close>. The
  response is the success response exactly when the connection is authorized.
\<close>

theorem root_get_response:
  assumes "v \<noteq> Mtlsserver_copy" and "req_method req = ''GET''" and "path req = ''/''"
  shows "fst (serve v conn req p) =
     (if authorized conn
      then \<lparr>status = 200, headers = cors_headers,
            body = JsonBody (JObject
              [(''status'', JString ''success''),
               (''message'', JString ''mTLS connection successful''),
               (''clientInfo'',
                  JObject (field ''subject'' (subject (peerCertificate conn))
                         @ field ''issuer'' (issuer (peerCertificate conn))
                         @ field ''valid_from''
                             (map_option JString (valid_from (peerCertificate conn)))
                         @ field ''valid_to''
                             (map_option JString (valid_to (peerCertificate conn)))))])\<rparr>
      else \<lparr>status = 401, headers = cors_headers,
            body = JsonBody (JObject
              [(''status'', JString ''error''),
               (''message'', JString ''Client certificate verification failed'')])\<rparr>)
   \<and> (authenticated_only v (fst (serve v conn req p)) \<longleftrightarrow> authorized conn)"
proof -
  have R: "fst (serve v conn req p) =
     (if authorized conn
      then \<lparr>status = 200, headers = cors_headers,
            body = JsonBody (success_payload (peerCertificate conn))\<rparr>
      else \<lparr>status = 401, headers = cors_headers, body = JsonBody failure_payload\<rparr>)"
    using assms by (simp add: serve_def app_response)
  have "authenticated_only v (fst (serve v conn req p)) \<longleftrightarrow> authorized conn"
    using assms(1) by (simp add: R)
  moreover note R [unfolded success_payload_def failure_payload_def]
  ultimately show ?thesis by simp
qed

theorem root_get_response_witness:
  "Part_000 \<noteq> Mtlsserver_copy \<and> req_method get_root = ''GET'' \<and> path get_root = ''/''
   \<and> fst (serve Part_000 trusted_client get_root (fresh all_files)) =
       \<lparr>status = 200, headers = cors_headers,
        body = JsonBody (JObject
          [(''status'', JString ''success''),
           (''message'', JString ''mTLS connection successful''),
           (''clientInfo'',
              JObject [(''subject'', JObject [(''CN'', JString ''TestClient'')]),
                       (''issuer'', JObject [(''CN'', JString ''Test CA'')]),
                       (''valid_from'', JString ''Jan  1 00:00:00 2025 GMT''),
                       (''valid_to'', JString ''Jan  1 00:00:00 2026 GMT'')])])\<rparr>
   \<and> fst (serve Part_000 untrusted_client get_root (fresh all_files)) =
       \<lparr>status = 401, headers = cors_headers,
        body = JsonBody (JObject
          [(''status'', JString ''error''),
           (''message'', JString ''Client certificate verification failed'')])\<rparr>"
proof -
  have h: "Part_000 \<noteq> Mtlsserver_copy" "req_method get_root = ''GET''" "path get_root = ''/''"
    by (simp_all add: get_root_def)
  show ?thesis
    using h root_get_response [OF h, of trusted_client "fresh all_files"]
      root_get_response [OF h, of untrusted_client "fresh all_files"]
    by (simp add: trusted_client_def untrusted_client_def field_def)
qed

text \<open>
  Claim C9. Every OPTIONS request to an Express variant is answered by the CORS middleware
  with status 200, and the whole outcome is the same for any two connections: the
  authorization flag is not read, so an unauthorized client gets 200 and not the 401
  rejection.
\<close>

theorem options_answered_before_authorization:
  assumes "v \<noteq> Mtlsserver_copy" and "req_method req = ''OPTIONS''"
  shows "fst (serve v conn req p) = \<lparr>status = 200, headers = cors_headers, body = TextBody ''OK''\<rparr>
       \<and> serve v conn req p = serve v conn' req p"
  using assms by (simp add: serve_def app_response) (simp add: app_def Let_def)

theorem options_answered_before_authorization_witness:
  "Part_001 \<noteq> Mtlsserver_copy \<and> req_method options_root = ''OPTIONS''
   \<and> \<not> authorized untrusted_client
   \<and> fst (serve Part_001 untrusted_client options_root (fresh all_files)) =
       \<lparr>status = 200, headers = cors_headers, body = TextBody ''OK''\<rparr>"
proof -
  have h: "Part_001 \<noteq> Mtlsserver_copy" "req_method options_root = ''OPTIONS''"
    by (simp_all add: options_root_def)
  show ?thesis
    using h options_answered_before_authorization [OF h, of untrusted_client "fresh all_files"]
    by (simp add: untrusted_client_def)
qed

end
